theory Spec2Isabelle
  imports Main
begin

section \<open>The forecast relay of \<^verbatim>\<open>server.js\<close>\<close>

text \<open>
  The program is one Node/Express file. The theory embeds the parts of it that carry
  behaviour: the city table \<^verbatim>\<open>CITY_MAP\<close>, the route \<^verbatim>\<open>/api/weather/:city\<close> and the body of
  \<^verbatim>\<open>getCityWeather\<close>, whose lines 84 to 141 reshape the upstream document.

  A JavaScript string is represented by the list of its UTF-8 bytes, so a literal outside
  ASCII is written byte by byte. The program concatenates and compares strings, and both
  commute with that encoding; it also lower-cases the route parameter, with a function
  of the engine that the model takes as a parameter.
\<close>

subsection \<open>The upstream document\<close>

text \<open>
  The shape the code reads from \<^verbatim>\<open>response.data\<close>. Every field the code reads is taken to
  be present with the type the upstream schema gives it; nothing is assumed about the
  lengths of the three arrays.
\<close>

record time_parameter =
  parameterName :: string

record time_slot =
  startTime :: string
  endTime :: string
  parameter :: time_parameter

record weather_element =
  elementName :: string
  time :: "time_slot list"

record location_record =
  locationName :: string
  weatherElement :: "weather_element list"

record records_part =
  datasetDescription :: string
  location :: "location_record list"

record raw_document =
  records :: records_part

subsection \<open>The reshaped forecast\<close>

record forecast =
  startTime :: string
  endTime :: string
  weather :: string
  rain :: string
  minTemp :: string
  maxTemp :: string
  comfort :: string
  windSpeed :: string

record weather_data =
  city :: string
  updateTime :: string
  forecasts :: "forecast list"

text \<open>
  What lines 84 to 141 can end in besides a value: the early return of the 404 answer for
  the requested name, and the \<^verbatim>\<open>TypeError\<close> JavaScript throws when a property is read from
  \<^verbatim>\<open>undefined\<close>.
\<close>

datatype error = NotFoundError string | TypeError

subsection \<open>Array indexing\<close>

text \<open>\<^verbatim>\<open>xs[i]\<close> on a JavaScript array: \<^verbatim>\<open>undefined\<close> (here \<open>None\<close>) out of range.\<close>

definition js_index :: "'a list \<Rightarrow> nat \<Rightarrow> 'a option" where
  "js_index xs i = (if i < length xs then Some (xs ! i) else None)"

subsection \<open>The transform, lines 84 to 141\<close>

text \<open>The two bytes of the degree sign followed by \<open>C\<close>.\<close>

definition degC :: string where
  "degC = [CHR 0xC2, CHR 0xB0] @ ''C''"

text \<open>The \<^verbatim>\<open>switch\<close> of lines 118 to 137 on the element's name.\<close>

definition switch_elementName :: "string \<Rightarrow> string \<Rightarrow> forecast \<Rightarrow> forecast" where
  "switch_elementName name v f =
     (if name = ''Wx'' then f\<lparr>weather := v\<rparr>
      else if name = ''PoP'' then f\<lparr>rain := v @ ''%''\<rparr>
      else if name = ''MinT'' then f\<lparr>minTemp := v @ degC\<rparr>
      else if name = ''MaxT'' then f\<lparr>maxTemp := v @ degC\<rparr>
      else if name = ''CI'' then f\<lparr>comfort := v\<rparr>
      else if name = ''WS'' then f\<lparr>windSpeed := v\<rparr>
      else f)"

text \<open>
  The callback of \<^verbatim>\<open>forEach\<close>, lines 116 to 138: \<^verbatim>\<open>element.time[i].parameter\<close> is read
  before the \<^verbatim>\<open>switch\<close>, whatever the element's name, and throws when \<^verbatim>\<open>element.time[i]\<close>
  is \<^verbatim>\<open>undefined\<close>.
\<close>

definition forEach_callback :: "nat \<Rightarrow> forecast \<Rightarrow> weather_element \<Rightarrow> error + forecast" where
  "forEach_callback i f element =
     (case js_index (time element) i of
        None \<Rightarrow> Inl TypeError
      | Some slot \<Rightarrow>
          Inr (switch_elementName (elementName element) (parameterName (parameter slot)) f))"

fun forEach :: "nat \<Rightarrow> weather_element list \<Rightarrow> forecast \<Rightarrow> error + forecast" where
  "forEach i [] f = Inr f"
| "forEach i (element # rest) f =
     (case forEach_callback i f element of
        Inl e \<Rightarrow> Inl e
      | Inr f' \<Rightarrow> forEach i rest f')"

text \<open>The object literal of lines 105 to 114.\<close>

definition new_forecast :: "time_slot \<Rightarrow> forecast" where
  "new_forecast slot =
     \<lparr>startTime = time_slot.startTime slot, endTime = time_slot.endTime slot,
      weather = '''', rain = '''', minTemp = '''', maxTemp = '''', comfort = '''',
      windSpeed = ''''\<rparr>"

text \<open>
  One turn of the \<^verbatim>\<open>for\<close> loop, lines 105 to 140, up to the \<^verbatim>\<open>push\<close>:
  \<^verbatim>\<open>weatherElements[0].time[i]\<close> is read again in each turn.
\<close>

definition loop_body :: "weather_element list \<Rightarrow> nat \<Rightarrow> error + forecast" where
  "loop_body weatherElements i =
     (case js_index weatherElements 0 of
        None \<Rightarrow> Inl TypeError
      | Some first \<Rightarrow>
          (case js_index (time first) i of
             None \<Rightarrow> Inl TypeError
           | Some slot \<Rightarrow> forEach i weatherElements (new_forecast slot)))"

text \<open>
  The \<^verbatim>\<open>for\<close> loop of lines 104 to 141; \<open>acc\<close> is \<^verbatim>\<open>weatherData.forecasts\<close>, to which each
  turn pushes at the end.
\<close>

function for_loop ::
  "weather_element list \<Rightarrow> nat \<Rightarrow> nat \<Rightarrow> forecast list \<Rightarrow> error + forecast list" where
  "for_loop weatherElements timeCount i acc =
     (if i < timeCount then
        (case loop_body weatherElements i of
           Inl e \<Rightarrow> Inl e
         | Inr f \<Rightarrow> for_loop weatherElements timeCount (Suc i) (acc @ [f]))
      else Inr acc)"
  by pat_completeness auto
termination
  by (relation "measure (\<lambda>(weatherElements, timeCount, i, acc). timeCount - i)") auto

declare for_loop.simps [simp del]

text \<open>
  Lines 84 to 141. \<^verbatim>\<open>location[0]\<close> of an empty list is \<^verbatim>\<open>undefined\<close>, which line 86 answers;
  \<open>weatherData\<close> is the object literal of lines 94 to 98, whose \<open>forecasts\<close> the loop
  fills; \<^verbatim>\<open>weatherElements[0].time\<close> of an empty list throws.
\<close>

definition normalize :: "raw_document \<Rightarrow> string \<Rightarrow> error + weather_data" where
  "normalize data cityName =
     (case js_index (location (records data)) 0 of
        None \<Rightarrow> Inl (NotFoundError cityName)
      | Some locationData \<Rightarrow>
          (let weatherData = \<lparr>city = locationName locationData,
                              updateTime = datasetDescription (records data),
                              forecasts = []\<rparr>;
               weatherElements = weatherElement locationData
           in case js_index weatherElements 0 of
                None \<Rightarrow> Inl TypeError
              | Some first \<Rightarrow>
                  (case for_loop weatherElements (length (time first)) 0
                          (forecasts weatherData) of
                     Inl e \<Rightarrow> Inl e
                   | Inr fs \<Rightarrow> Inr (weatherData\<lparr>forecasts := fs\<rparr>))))"

subsection \<open>What the loop writes, in closed form\<close>

text \<open>
  Auxiliary functions used to state what the transform returns; they are not part of the
  program. \<open>written i element f\<close> is the forecast after the callback has run on an element
  whose \<open>i\<close>-th slot exists, \<open>entry\<close> the forecast of turn \<open>i\<close> when every element has
  that slot.
\<close>

definition written :: "nat \<Rightarrow> weather_element \<Rightarrow> forecast \<Rightarrow> forecast" where
  "written i element f =
     switch_elementName (elementName element) (parameterName (parameter (time element ! i))) f"

definition entry :: "weather_element list \<Rightarrow> nat \<Rightarrow> forecast" where
  "entry es i = fold (written i) es (new_forecast (time (hd es) ! i))"

text \<open>
  The element that decides a field: \<^verbatim>\<open>forEach\<close> visits the elements in order and a later
  element of the same name overwrites what an earlier one wrote, so it is the last one of
  that name.
\<close>

definition last_named :: "string \<Rightarrow> weather_element list \<Rightarrow> weather_element option" where
  "last_named name es = find (\<lambda>e. elementName e = name) (rev es)"

definition field_text :: "string \<Rightarrow> string \<Rightarrow> weather_element list \<Rightarrow> nat \<Rightarrow> string" where
  "field_text name suffix es i =
     (case last_named name es of
        None \<Rightarrow> ''''
      | Some e \<Rightarrow> parameterName (parameter (time e ! i)) @ suffix)"

subsection \<open>Values of the route's table lookup\<close>

text \<open>
  \<^verbatim>\<open>CITY_MAP[cityCode]\<close> is a property read on an object literal, so it yields the object's
  own property when there is one and otherwise what the prototype chain gives: the
  members of \<^verbatim>\<open>Object.prototype\<close> (functions, and the prototype itself under
  \<^verbatim>\<open>__proto__\<close>), and \<^verbatim>\<open>undefined\<close> for every other key.
\<close>

datatype js_value = Undefined | Str string | NativeFunction string | ObjectPrototype

text \<open>\<^verbatim>\<open>!v\<close> is false exactly on the truthy values.\<close>

definition truthy :: "js_value \<Rightarrow> bool" where
  "truthy v = (case v of Undefined \<Rightarrow> False | Str s \<Rightarrow> s \<noteq> [] | NativeFunction n \<Rightarrow> True
     | ObjectPrototype \<Rightarrow> True)"

text \<open>The string a template literal \<^verbatim>\<open>${v}\<close> inserts.\<close>

definition template :: "js_value \<Rightarrow> string" where
  "template v = (case v of
       Undefined \<Rightarrow> ''undefined''
     | Str s \<Rightarrow> s
     | NativeFunction n \<Rightarrow> ''function '' @ n @ ''() { [native code] }''
     | ObjectPrototype \<Rightarrow> ''[object Object]'')"

definition Object_prototype :: "string \<Rightarrow> js_value" where
  "Object_prototype key =
     (if key = ''constructor'' then NativeFunction ''Object''
      else if key = ''__proto__'' then ObjectPrototype
      else if key \<in> set [''__defineGetter__'', ''__defineSetter__'', ''hasOwnProperty'',
                ''__lookupGetter__'', ''__lookupSetter__'', ''isPrototypeOf'',
                ''propertyIsEnumerable'', ''toString'', ''valueOf'', ''toLocaleString'']
        then NativeFunction key
      else Undefined)"

text \<open>\<^verbatim>\<open>obj[key]\<close> for an object literal whose own properties are the pairs of \<open>obj\<close>.\<close>

definition get_property :: "(string \<times> string) list \<Rightarrow> string \<Rightarrow> js_value" where
  "get_property obj key =
     (case map_of obj key of Some v \<Rightarrow> Str v | None \<Rightarrow> Object_prototype key)"

text \<open>\<^verbatim>\<open>Object.keys(obj)\<close>: the own keys, in the order of the literal.\<close>

definition Object_keys :: "(string \<times> string) list \<Rightarrow> string list" where
  "Object_keys obj = map fst obj"

text \<open>
  \<^verbatim>\<open>String.prototype.toLowerCase\<close> belongs to the engine and follows the Unicode case
  mappings; the route takes it as a parameter \<open>toLowerCase\<close>, so what is proved of the
  route holds whatever that function is. On a string of ASCII characters it is the
  function below, which maps the letters \<open>A\<close> to \<open>Z\<close> to \<open>a\<close> to \<open>z\<close>; the route is
  evaluated with it on ASCII parameters only.
\<close>

definition lower_char :: "char \<Rightarrow> char" where
  "lower_char c =
     (case map_of (zip ''ABCDEFGHIJKLMNOPQRSTUVWXYZ'' ''abcdefghijklmnopqrstuvwxyz'') c of
        Some l \<Rightarrow> l
      | None \<Rightarrow> c)"

definition ascii_toLowerCase :: "string \<Rightarrow> string" where
  "ascii_toLowerCase s = map lower_char s"

subsection \<open>String literals of the program\<close>

text \<open>The literal of line 88.\<close>

definition text_not_found :: string where
  "text_not_found =
     [CHR 0xE6, CHR 0x9F, CHR 0xA5, CHR 0xE7, CHR 0x84, CHR 0xA1, CHR 0xE8, CHR 0xB3,
      CHR 0x87, CHR 0xE6, CHR 0x96, CHR 0x99]"

text \<open>The literal of line 89, before the name.\<close>

definition text_cannot_get :: string where
  "text_cannot_get =
     [CHR 0xE7, CHR 0x84, CHR 0xA1, CHR 0xE6, CHR 0xB3, CHR 0x95, CHR 0xE5, CHR 0x8F,
      CHR 0x96, CHR 0xE5, CHR 0xBE, CHR 0x97]"

text \<open>The literal of line 89, after the name.\<close>

definition text_weather_data :: string where
  "text_weather_data =
     [CHR 0xE5, CHR 0xA4, CHR 0xA9, CHR 0xE6, CHR 0xB0, CHR 0xA3, CHR 0xE8, CHR 0xB3,
      CHR 0x87, CHR 0xE6, CHR 0x96, CHR 0x99]"

text \<open>The literal of line 65.\<close>

definition text_config_error :: string where
  "text_config_error =
     [CHR 0xE4, CHR 0xBC, CHR 0xBA, CHR 0xE6, CHR 0x9C, CHR 0x8D, CHR 0xE5, CHR 0x99,
      CHR 0xA8, CHR 0xE8, CHR 0xA8, CHR 0xAD, CHR 0xE5, CHR 0xAE, CHR 0x9A, CHR 0xE9,
      CHR 0x8C, CHR 0xAF, CHR 0xE8, CHR 0xAA, CHR 0xA4]"

text \<open>The literal of line 66.\<close>

definition text_config_message :: string where
  "text_config_message =
     [CHR 0xE8, CHR 0xAB, CHR 0x8B, CHR 0xE5, CHR 0x9C, CHR 0xA8] @ '' .env ''
      @ [CHR 0xE6, CHR 0xAA, CHR 0x94, CHR 0xE6, CHR 0xA1, CHR 0x88, CHR 0xE4, CHR 0xB8,
      CHR 0xAD, CHR 0xE8, CHR 0xA8, CHR 0xAD, CHR 0xE5, CHR 0xAE, CHR 0x9A]
      @ '' CWA_API_KEY''"

text \<open>The literal of line 154.\<close>

definition text_upstream_error :: string where
  "text_upstream_error =
     ''CWA API '' @ [CHR 0xE9, CHR 0x8C, CHR 0xAF, CHR 0xE8, CHR 0xAA, CHR 0xA4]"

text \<open>The literal of line 155.\<close>

definition text_upstream_default :: string where
  "text_upstream_default =
     [CHR 0xE7, CHR 0x84, CHR 0xA1, CHR 0xE6, CHR 0xB3, CHR 0x95, CHR 0xE5, CHR 0x8F,
      CHR 0x96, CHR 0xE5, CHR 0xBE, CHR 0x97, CHR 0xE5, CHR 0xA4, CHR 0xA9, CHR 0xE6,
      CHR 0xB0, CHR 0xA3, CHR 0xE8, CHR 0xB3, CHR 0x87, CHR 0xE6, CHR 0x96, CHR 0x99]"

text \<open>The literal of line 161.\<close>

definition text_server_error :: string where
  "text_server_error =
     [CHR 0xE4, CHR 0xBC, CHR 0xBA, CHR 0xE6, CHR 0x9C, CHR 0x8D, CHR 0xE5, CHR 0x99,
      CHR 0xA8, CHR 0xE9, CHR 0x8C, CHR 0xAF, CHR 0xE8, CHR 0xAA, CHR 0xA4]"

text \<open>The literal of line 162.\<close>

definition text_server_message :: string where
  "text_server_message =
     [CHR 0xE7, CHR 0x84, CHR 0xA1, CHR 0xE6, CHR 0xB3, CHR 0x95, CHR 0xE5, CHR 0x8F,
      CHR 0x96, CHR 0xE5, CHR 0xBE, CHR 0x97, CHR 0xE5, CHR 0xA4, CHR 0xA9, CHR 0xE6,
      CHR 0xB0, CHR 0xA3, CHR 0xE8, CHR 0xB3, CHR 0x87, CHR 0xE6, CHR 0x96, CHR 0x99,
      CHR 0xEF, CHR 0xBC, CHR 0x8C, CHR 0xE8, CHR 0xAB, CHR 0x8B, CHR 0xE7, CHR 0xA8,
      CHR 0x8D, CHR 0xE5, CHR 0xBE, CHR 0x8C, CHR 0xE5, CHR 0x86, CHR 0x8D, CHR 0xE8,
      CHR 0xA9, CHR 0xA6]"

text \<open>The literal of line 196.\<close>

definition text_unsupported :: string where
  "text_unsupported =
     [CHR 0xE4, CHR 0xB8, CHR 0x8D, CHR 0xE6, CHR 0x94, CHR 0xAF, CHR 0xE6, CHR 0x8F,
      CHR 0xB4, CHR 0xE7, CHR 0x9A, CHR 0x84, CHR 0xE5, CHR 0x9F, CHR 0x8E, CHR 0xE5,
      CHR 0xB8, CHR 0x82]"

text \<open>The literal of line 197.\<close>

definition text_use_codes :: string where
  "text_use_codes =
     [CHR 0xE8, CHR 0xAB, CHR 0x8B, CHR 0xE4, CHR 0xBD, CHR 0xBF, CHR 0xE7, CHR 0x94,
      CHR 0xA8, CHR 0xE4, CHR 0xBB, CHR 0xA5, CHR 0xE4, CHR 0xB8, CHR 0x8B, CHR 0xE5,
      CHR 0x9F, CHR 0x8E, CHR 0xE5, CHR 0xB8, CHR 0x82, CHR 0xE4, CHR 0xBB, CHR 0xA3,
      CHR 0xE7, CHR 0xA2, CHR 0xBC, CHR 0xE4, CHR 0xB9, CHR 0x8B, CHR 0xE4, CHR 0xB8,
      CHR 0x80]"

text \<open>The literal of line 70, before the name.\<close>

definition log_fetching_1 :: string where
  "log_fetching_1 =
     [CHR 0xF0, CHR 0x9F, CHR 0x93, CHR 0xA1] @ '' '' @ [CHR 0xE6, CHR 0xAD, CHR 0xA3,
      CHR 0xE5, CHR 0x9C, CHR 0xA8, CHR 0xE5, CHR 0x8F, CHR 0x96, CHR 0xE5, CHR 0xBE,
      CHR 0x97] @ '' ''"

text \<open>The literal of line 70, after the name.\<close>

definition log_fetching_2 :: string where
  "log_fetching_2 =
     '' '' @ [CHR 0xE7, CHR 0x9A, CHR 0x84, CHR 0xE5, CHR 0xA4, CHR 0xA9, CHR 0xE6,
      CHR 0xB0, CHR 0xA3, CHR 0xE8, CHR 0xB3, CHR 0x87, CHR 0xE6, CHR 0x96, CHR 0x99]
      @ ''...''"

text \<open>The literal of line 143, before the name.\<close>

definition log_ok_1 :: string where
  "log_ok_1 =
     [CHR 0xE2, CHR 0x9C, CHR 0x85] @ '' ''"

text \<open>The literal of line 143, after the name.\<close>

definition log_ok_2 :: string where
  "log_ok_2 =
     '' '' @ [CHR 0xE5, CHR 0xA4, CHR 0xA9, CHR 0xE6, CHR 0xB0, CHR 0xA3, CHR 0xE8,
      CHR 0xB3, CHR 0x87, CHR 0xE6, CHR 0x96, CHR 0x99, CHR 0xE5, CHR 0x8F, CHR 0x96,
      CHR 0xE5, CHR 0xBE, CHR 0x97, CHR 0xE6, CHR 0x88, CHR 0x90, CHR 0xE5, CHR 0x8A,
      CHR 0x9F]"

text \<open>The literal of line 150, before the name.\<close>

definition log_failed_1 :: string where
  "log_failed_1 =
     [CHR 0xE2, CHR 0x9D, CHR 0x8C] @ '' '' @ [CHR 0xE5, CHR 0x8F, CHR 0x96, CHR 0xE5,
      CHR 0xBE, CHR 0x97]"

text \<open>The literal of line 150, after the name.\<close>

definition log_failed_2 :: string where
  "log_failed_2 =
     [CHR 0xE5, CHR 0xA4, CHR 0xA9, CHR 0xE6, CHR 0xB0, CHR 0xA3, CHR 0xE8, CHR 0xB3,
      CHR 0x87, CHR 0xE6, CHR 0x96, CHR 0x99, CHR 0xE5, CHR 0xA4, CHR 0xB1, CHR 0xE6,
      CHR 0x95, CHR 0x97] @ '':''"

text \<open>The literal of line 170.\<close>

definition text_welcome :: string where
  "text_welcome =
     [CHR 0xF0, CHR 0x9F, CHR 0x8C, CHR 0xA4, CHR 0xEF, CHR 0xB8, CHR 0x8F] @ '' ''
      @ [CHR 0xE6, CHR 0xAD, CHR 0xA1, CHR 0xE8, CHR 0xBF, CHR 0x8E, CHR 0xE4, CHR 0xBD,
      CHR 0xBF, CHR 0xE7, CHR 0x94, CHR 0xA8] @ '' CWA '' @ [CHR 0xE5, CHR 0xA4,
      CHR 0xA9, CHR 0xE6, CHR 0xB0, CHR 0xA3, CHR 0xE9, CHR 0xA0, CHR 0x90, CHR 0xE5,
      CHR 0xA0, CHR 0xB1] @ '' API''"

text \<open>The literal of line 218.\<close>

definition text_no_route :: string where
  "text_no_route =
     [CHR 0xE6, CHR 0x89, CHR 0xBE, CHR 0xE4, CHR 0xB8, CHR 0x8D, CHR 0xE5, CHR 0x88,
      CHR 0xB0, CHR 0xE6, CHR 0xAD, CHR 0xA4, CHR 0xE8, CHR 0xB7, CHR 0xAF, CHR 0xE5,
      CHR 0xBE, CHR 0x91]"

text \<open>The literal of line 219.\<close>

definition text_see_root :: string where
  "text_see_root =
     [CHR 0xE8, CHR 0xAB, CHR 0x8B, CHR 0xE5, CHR 0x8F, CHR 0x83, CHR 0xE8, CHR 0x80,
      CHR 0x83, CHR 0xE6, CHR 0xA0, CHR 0xB9, CHR 0xE8, CHR 0xB7, CHR 0xAF, CHR 0xE5,
      CHR 0xBE, CHR 0x91] @ '' / '' @ [CHR 0xE6, CHR 0x9F, CHR 0xA5, CHR 0xE7, CHR 0x9C,
      CHR 0x8B, CHR 0xE5, CHR 0x8F, CHR 0xAF, CHR 0xE7, CHR 0x94, CHR 0xA8, CHR 0xE7,
      CHR 0x9A, CHR 0x84] @ '' API endpoints''"

text \<open>The literal of line 224, before the port.\<close>

definition log_listen_port :: string where
  "log_listen_port =
     [CHR 0xF0, CHR 0x9F, CHR 0x9A, CHR 0x80] @ '' '' @ [CHR 0xE4, CHR 0xBC, CHR 0xBA,
      CHR 0xE6, CHR 0x9C, CHR 0x8D, CHR 0xE5, CHR 0x99, CHR 0xA8, CHR 0xE5, CHR 0xB7,
      CHR 0xB2, CHR 0xE5, CHR 0x95, CHR 0x9F, CHR 0xE5, CHR 0x8B, CHR 0x95, CHR 0xE6,
      CHR 0x96, CHR 0xBC] @ '' Port ''"

text \<open>The literal of line 225, before the environment's name.\<close>

definition log_listen_env :: string where
  "log_listen_env =
     [CHR 0xF0, CHR 0x9F, CHR 0x93, CHR 0x8D] @ '' '' @ [CHR 0xE7, CHR 0x92, CHR 0xB0,
      CHR 0xE5, CHR 0xA2, CHR 0x83] @ '': ''"

text \<open>The literal of line 226, before the number.\<close>

definition log_listen_count_1 :: string where
  "log_listen_count_1 =
     [CHR 0xF0, CHR 0x9F, CHR 0x8C, CHR 0x8D] @ '' '' @ [CHR 0xE6, CHR 0x94, CHR 0xAF,
      CHR 0xE6, CHR 0x8F, CHR 0xB4] @ '' ''"

text \<open>The literal of line 226, after the number.\<close>

definition log_listen_count_2 :: string where
  "log_listen_count_2 =
     '' '' @ [CHR 0xE5, CHR 0x80, CHR 0x8B, CHR 0xE7, CHR 0xB8, CHR 0xA3, CHR 0xE5,
      CHR 0xB8, CHR 0x82]"

text \<open>The literal of line 227, before the port.\<close>

definition log_listen_url_1 :: string where
  "log_listen_url_1 =
     [CHR 0xF0, CHR 0x9F, CHR 0x93, CHR 0xA1] @ '' API '' @ [CHR 0xE7, CHR 0xAB,
      CHR 0xAF, CHR 0xE9, CHR 0xBB, CHR 0x9E] @ '': http://localhost:''"

text \<open>The literal of line 227, after the port.\<close>

definition log_listen_url_2 :: string where
  "log_listen_url_2 =
     ''/api/weather/:city''"

text \<open>The object literal of lines 32 to 55, as the list of its properties in order.\<close>

definition CITY_MAP_literal :: "(string \<times> string) list" where
  "CITY_MAP_literal =
    [(''taipei'', [CHR 0xE8, CHR 0x87, CHR 0xBA, CHR 0xE5, CHR 0x8C, CHR 0x97, CHR 0xE5, CHR 0xB8, CHR 0x82]),
     (''newtaipei'', [CHR 0xE6, CHR 0x96, CHR 0xB0, CHR 0xE5, CHR 0x8C, CHR 0x97, CHR 0xE5, CHR 0xB8, CHR 0x82]),
     (''taoyuan'', [CHR 0xE6, CHR 0xA1, CHR 0x83, CHR 0xE5, CHR 0x9C, CHR 0x92, CHR 0xE5, CHR 0xB8, CHR 0x82]),
     (''taichung'', [CHR 0xE8, CHR 0x87, CHR 0xBA, CHR 0xE4, CHR 0xB8, CHR 0xAD, CHR 0xE5, CHR 0xB8, CHR 0x82]),
     (''tainan'', [CHR 0xE8, CHR 0x87, CHR 0xBA, CHR 0xE5, CHR 0x8D, CHR 0x97, CHR 0xE5, CHR 0xB8, CHR 0x82]),
     (''kaohsiung'', [CHR 0xE9, CHR 0xAB, CHR 0x98, CHR 0xE9, CHR 0x9B, CHR 0x84, CHR 0xE5, CHR 0xB8, CHR 0x82]),
     (''keelung'', [CHR 0xE5, CHR 0x9F, CHR 0xBA, CHR 0xE9, CHR 0x9A, CHR 0x86, CHR 0xE5, CHR 0xB8, CHR 0x82]),
     (''hsinchu-city'', [CHR 0xE6, CHR 0x96, CHR 0xB0, CHR 0xE7, CHR 0xAB, CHR 0xB9, CHR 0xE5, CHR 0xB8, CHR 0x82]),
     (''hsinchu'', [CHR 0xE6, CHR 0x96, CHR 0xB0, CHR 0xE7, CHR 0xAB, CHR 0xB9, CHR 0xE7, CHR 0xB8, CHR 0xA3]),
     (''miaoli'', [CHR 0xE8, CHR 0x8B, CHR 0x97, CHR 0xE6, CHR 0xA0, CHR 0x97, CHR 0xE7, CHR 0xB8, CHR 0xA3]),
     (''changhua'', [CHR 0xE5, CHR 0xBD, CHR 0xB0, CHR 0xE5, CHR 0x8C, CHR 0x96, CHR 0xE7, CHR 0xB8, CHR 0xA3]),
     (''nantou'', [CHR 0xE5, CHR 0x8D, CHR 0x97, CHR 0xE6, CHR 0x8A, CHR 0x95, CHR 0xE7, CHR 0xB8, CHR 0xA3]),
     (''yunlin'', [CHR 0xE9, CHR 0x9B, CHR 0xB2, CHR 0xE6, CHR 0x9E, CHR 0x97, CHR 0xE7, CHR 0xB8, CHR 0xA3]),
     (''chiayi-city'', [CHR 0xE5, CHR 0x98, CHR 0x89, CHR 0xE7, CHR 0xBE, CHR 0xA9, CHR 0xE5, CHR 0xB8, CHR 0x82]),
     (''chiayi'', [CHR 0xE5, CHR 0x98, CHR 0x89, CHR 0xE7, CHR 0xBE, CHR 0xA9, CHR 0xE7, CHR 0xB8, CHR 0xA3]),
     (''pingtung'', [CHR 0xE5, CHR 0xB1, CHR 0x8F, CHR 0xE6, CHR 0x9D, CHR 0xB1, CHR 0xE7, CHR 0xB8, CHR 0xA3]),
     (''yilan'', [CHR 0xE5, CHR 0xAE, CHR 0x9C, CHR 0xE8, CHR 0x98, CHR 0xAD, CHR 0xE7, CHR 0xB8, CHR 0xA3]),
     (''hualien'', [CHR 0xE8, CHR 0x8A, CHR 0xB1, CHR 0xE8, CHR 0x93, CHR 0xAE, CHR 0xE7, CHR 0xB8, CHR 0xA3]),
     (''taitung'', [CHR 0xE8, CHR 0x87, CHR 0xBA, CHR 0xE6, CHR 0x9D, CHR 0xB1, CHR 0xE7, CHR 0xB8, CHR 0xA3]),
     (''penghu'', [CHR 0xE6, CHR 0xBE, CHR 0x8E, CHR 0xE6, CHR 0xB9, CHR 0x96, CHR 0xE7, CHR 0xB8, CHR 0xA3]),
     (''kinmen'', [CHR 0xE9, CHR 0x87, CHR 0x91, CHR 0xE9, CHR 0x96, CHR 0x80, CHR 0xE7, CHR 0xB8, CHR 0xA3]),
     (''lienchiang'', [CHR 0xE9, CHR 0x80, CHR 0xA3, CHR 0xE6, CHR 0xB1, CHR 0x9F, CHR 0xE7, CHR 0xB8, CHR 0xA3])]"

subsection \<open>The server: module state, effects, responses\<close>

text \<open>
  The module-level bindings a handler can reach, and the trace of what the process has
  done to the outside: \<^verbatim>\<open>CITY_MAP\<close> is the object the constant is bound to (a \<^verbatim>\<open>const\<close>
  binding does not freeze the object), \<^verbatim>\<open>CWA_API_KEY\<close> is the value read from the
  environment at start (\<open>None\<close> when the variable is not set), \<open>effects\<close> lists console
  output and upstream calls, oldest first.
\<close>

datatype effect =
    ConsoleLog string
  | ConsoleError string
  | AxiosGet string string js_value

record server =
  CITY_MAP :: "(string \<times> string) list"
  CWA_API_KEY :: "string option"
  effects :: "effect list"

definition startup :: "string option \<Rightarrow> server" where
  "startup env_key = \<lparr>CITY_MAP = CITY_MAP_literal, CWA_API_KEY = env_key, effects = []\<rparr>"

text \<open>
  What \<^verbatim>\<open>axios.get\<close> can do: resolve with a document, or reject with an error that carries
  the upstream's response or carries none. Of such a response the model keeps the status
  and the \<^verbatim>\<open>message\<close> of the body, if it has one. The upstream is a parameter of the
  handlers: a function from the key and the location name sent to what the call does.
\<close>

datatype error_response = ErrorResponse (response_status: nat) (data_message: "string option")

datatype axios_result = Resolved raw_document | Rejected "error_response option"

type_synonym upstream = "string \<Rightarrow> js_value \<Rightarrow> axios_result"

text \<open>The JSON bodies the handlers send, one constructor for each shape.\<close>

datatype body =
    ErrorBody string string
  | UpstreamErrorBody string string "string option"
  | UnsupportedBody string string "string list" string
  | SuccessBody weather_data
  | WelcomeBody string "string list" nat "(string \<times> string) list"
  | HealthBody string string nat
  | TextBody string

record response =
  status :: nat
  body :: body

definition CWA_API_BASE_URL :: string where
  "CWA_API_BASE_URL = ''https://opendata.cwa.gov.tw/api''"

subsection \<open>\<^verbatim>\<open>getCityWeather\<close>, lines 60 to 165\<close>

text \<open>What the \<^verbatim>\<open>try\<close> block can throw.\<close>

datatype exception = ThrownTypeError | AxiosError "error_response option"

text \<open>
  The \<^verbatim>\<open>catch\<close> block, lines 149 to 164. Of the two arguments of \<^verbatim>\<open>console.error\<close> the
  trace keeps the first; the second is the error's own message.
\<close>

definition catch_block :: "js_value \<Rightarrow> exception \<Rightarrow> server \<Rightarrow> response \<times> server" where
  "catch_block cityName ex s =
     (let s' = s\<lparr>effects := effects s @
                  [ConsoleError (log_failed_1 @ template cityName @ log_failed_2)]\<rparr>
      in case ex of
           AxiosError (Some r) \<Rightarrow>
             (\<lparr>status = response_status r,
               body = UpstreamErrorBody text_upstream_error
                        (case data_message r of
                           None \<Rightarrow> text_upstream_default
                         | Some m \<Rightarrow> if m = [] then text_upstream_default else m)
                        (data_message r)\<rparr>, s')
         | AxiosError None \<Rightarrow>
             (\<lparr>status = 500, body = ErrorBody text_server_error text_server_message\<rparr>, s')
         | ThrownTypeError \<Rightarrow>
             (\<lparr>status = 500, body = ErrorBody text_server_error text_server_message\<rparr>, s'))"

text \<open>
  The function. \<^verbatim>\<open>!CWA_API_KEY\<close> holds for an unset variable and for the empty string.
  The name reaches the transform only through the template literal of line 89.
\<close>

definition getCityWeather :: "upstream \<Rightarrow> js_value \<Rightarrow> server \<Rightarrow> response \<times> server" where
  "getCityWeather axios_get cityName s =
     (case CWA_API_KEY s of
        None \<Rightarrow>
          (\<lparr>status = 500, body = ErrorBody text_config_error text_config_message\<rparr>, s)
      | Some key \<Rightarrow>
          if key = [] then
            (\<lparr>status = 500, body = ErrorBody text_config_error text_config_message\<rparr>, s)
          else
            (let s1 = s\<lparr>effects := effects s @
                        [ConsoleLog (log_fetching_1 @ template cityName @ log_fetching_2),
                         AxiosGet (CWA_API_BASE_URL @ ''/v1/rest/datastore/F-C0032-001'')
                           key cityName]\<rparr>
             in case axios_get key cityName of
                  Rejected r \<Rightarrow> catch_block cityName (AxiosError r) s1
                | Resolved data \<Rightarrow>
                    (case normalize data (template cityName) of
                       Inl (NotFoundError name) \<Rightarrow>
                         (\<lparr>status = 404,
                           body = ErrorBody text_not_found
                                    (text_cannot_get @ name @ text_weather_data)\<rparr>, s1)
                     | Inl TypeError \<Rightarrow> catch_block cityName ThrownTypeError s1
                     | Inr weatherData \<Rightarrow>
                         (\<lparr>status = 200, body = SuccessBody weatherData\<rparr>,
                          s1\<lparr>effects := effects s1 @
                               [ConsoleLog (log_ok_1 @ template cityName @ log_ok_2)]\<rparr>))))"

subsection \<open>The routes, lines 168 to 221\<close>

definition root_route :: "server \<Rightarrow> response \<times> server" where
  "root_route s =
     (\<lparr>status = 200,
       body = WelcomeBody text_welcome (Object_keys (CITY_MAP s))
                (length (Object_keys (CITY_MAP s)))
                [(''example'', ''/api/weather/taipei''), (''allCities'', ''/api/weather/:city''),
                 (''health'', ''/api/health'')]\<rparr>, s)"

text \<open>\<open>now\<close> is what \<^verbatim>\<open>new Date().toISOString()\<close> gives when the request is served.\<close>

definition health_route :: "string \<Rightarrow> server \<Rightarrow> response \<times> server" where
  "health_route now s =
     (\<lparr>status = 200, body = HealthBody ''OK'' now (length (Object_keys (CITY_MAP s)))\<rparr>, s)"

text \<open>The route \<^verbatim>\<open>/api/weather/:city\<close>, lines 190 to 204; \<open>param\<close> is \<^verbatim>\<open>req.params.city\<close>.\<close>

definition weather_route ::
  "(string \<Rightarrow> string) \<Rightarrow> upstream \<Rightarrow> string \<Rightarrow> server \<Rightarrow> response \<times> server" where
  "weather_route toLowerCase axios_get param s =
     (let cityCode = toLowerCase param;
          cityName = get_property (CITY_MAP s) cityCode
      in if \<not> truthy cityName then
           (\<lparr>status = 400,
             body = UnsupportedBody text_unsupported text_use_codes
                      (Object_keys (CITY_MAP s)) cityCode\<rparr>, s)
         else getCityWeather axios_get cityName s)"

text \<open>
  The error-handling middleware, lines 207 to 213, for an error a middleware passes on
  (the body parsers do, on a body they cannot read): \<open>message\<close> and \<open>stack\<close> are the
  error's.
\<close>

definition error_handler :: "string \<Rightarrow> string \<Rightarrow> server \<Rightarrow> response \<times> server" where
  "error_handler message stack s =
     (\<lparr>status = 500, body = ErrorBody text_server_error message\<rparr>,
      s\<lparr>effects := effects s @ [ConsoleError stack]\<rparr>)"

text \<open>The last handler, lines 216 to 221.\<close>

definition not_found_handler :: "server \<Rightarrow> response \<times> server" where
  "not_found_handler s =
     (\<lparr>status = 404, body = ErrorBody text_no_route text_see_root\<rparr>, s)"

text \<open>
  A request as the application sees it: the method \<^verbatim>\<open>OPTIONS\<close>, which the first
  middleware answers itself (lines 19 to 21), a body that a parser rejects, one of the
  three routes, or anything else. Response headers are not modelled.
\<close>

datatype request =
    Options
  | BadBody string string
  | GetRoot
  | GetHealth string
  | GetWeather string
  | Unrouted

definition handle ::
  "(string \<Rightarrow> string) \<Rightarrow> upstream \<Rightarrow> request \<Rightarrow> server \<Rightarrow> response \<times> server" where
  "handle toLowerCase axios_get req s =
     (case req of
        Options \<Rightarrow> (\<lparr>status = 200, body = TextBody ''OK''\<rparr>, s)
      | BadBody message stack \<Rightarrow> error_handler message stack s
      | GetRoot \<Rightarrow> root_route s
      | GetHealth now \<Rightarrow> health_route now s
      | GetWeather param \<Rightarrow> weather_route toLowerCase axios_get param s
      | Unrouted \<Rightarrow> not_found_handler s)"

text \<open>
  Serving requests one after the other, each with the upstream as it behaves at that
  moment; the result is the state after the last one.
\<close>

fun serve :: "(string \<Rightarrow> string) \<Rightarrow> (upstream \<times> request) list \<Rightarrow> server \<Rightarrow> server" where
  "serve toLowerCase [] s = s"
| "serve toLowerCase ((axios_get, req) # rest) s =
     serve toLowerCase rest (snd (handle toLowerCase axios_get req s))"

text \<open>A number in a template literal: its decimal digits.\<close>

function decimal :: "nat \<Rightarrow> string" where
  "decimal n =
     (if n < 10 then [''0123456789'' ! n]
      else decimal (n div 10) @ [''0123456789'' ! (n mod 10)])"
  by pat_completeness auto
termination
  by (relation "measure (\<lambda>n. n)") auto

declare decimal.simps [simp del]

text \<open>
  The callback of \<^verbatim>\<open>app.listen\<close>, lines 223 to 228, run once when the server is up:
  \<open>port\<close> is the text of \<^verbatim>\<open>PORT\<close> and \<open>node_env\<close> the environment variable
  \<^verbatim>\<open>NODE_ENV\<close>, \<open>None\<close> when it is not set.
\<close>

definition listen_callback :: "string \<Rightarrow> string option \<Rightarrow> server \<Rightarrow> server" where
  "listen_callback port node_env s =
     s\<lparr>effects := effects s @
        [ConsoleLog (log_listen_port @ port),
         ConsoleLog (log_listen_env @
           (case node_env of
              None \<Rightarrow> ''development''
            | Some name \<Rightarrow> if name = [] then ''development'' else name)),
         ConsoleLog (log_listen_count_1 @ decimal (length (Object_keys (CITY_MAP s))) @
                     log_listen_count_2),
         ConsoleLog (log_listen_url_1 @ port @ log_listen_url_2)]\<rparr>"

subsection \<open>Sample documents\<close>

text \<open>Concrete documents on which the theorems below evaluate the program.\<close>

definition time_entry :: "string \<Rightarrow> string \<Rightarrow> string \<Rightarrow> time_slot" where
  "time_entry t0 t1 v =
     \<lparr>time_slot.startTime = t0, time_slot.endTime = t1,
      parameter = \<lparr>parameterName = v\<rparr>\<rparr>"

definition document :: "string \<Rightarrow> location_record list \<Rightarrow> raw_document" where
  "document description locations =
     \<lparr>records = \<lparr>datasetDescription = description, location = locations\<rparr>\<rparr>"

text \<open>No location record.\<close>

definition empty_document :: raw_document where
  "empty_document = document ''36h'' []"

text \<open>
  One location; \<open>Wx\<close> with two slots valued \<open>Cloudy\<close> and \<open>Rainy\<close>, \<open>PoP\<close> with the
  same two windows valued \<open>10\<close> and \<open>80\<close>.
\<close>

definition scenario_document :: raw_document where
  "scenario_document = document ''36h''
     [\<lparr>locationName = ''Taipei'',
       weatherElement =
         [\<lparr>elementName = ''Wx'',
           time = [time_entry ''2024-01-01T00:00'' ''2024-01-01T06:00'' ''Cloudy'',
                   time_entry ''2024-01-01T06:00'' ''2024-01-01T12:00'' ''Rainy'']\<rparr>,
          \<lparr>elementName = ''PoP'',
           time = [time_entry ''2024-01-01T00:00'' ''2024-01-01T06:00'' ''10'',
                   time_entry ''2024-01-01T06:00'' ''2024-01-01T12:00'' ''80'']\<rparr>]\<rparr>]"

text \<open>The same, but \<open>PoP\<close> has lost its second slot.\<close>

definition short_element_document :: raw_document where
  "short_element_document = document ''36h''
     [\<lparr>locationName = ''Taipei'',
       weatherElement =
         [\<lparr>elementName = ''Wx'',
           time = [time_entry ''2024-01-01T00:00'' ''2024-01-01T06:00'' ''Cloudy'',
                   time_entry ''2024-01-01T06:00'' ''2024-01-01T12:00'' ''Rainy'']\<rparr>,
          \<lparr>elementName = ''PoP'',
           time = [time_entry ''2024-01-01T00:00'' ''2024-01-01T06:00'' ''10'']\<rparr>]\<rparr>]"

text \<open>The first element has one slot, the second has two.\<close>

definition long_element_document :: raw_document where
  "long_element_document = document ''36h''
     [\<lparr>locationName = ''Taipei'',
       weatherElement =
         [\<lparr>elementName = ''Wx'',
           time = [time_entry ''2024-01-01T00:00'' ''2024-01-01T06:00'' ''Cloudy'']\<rparr>,
          \<lparr>elementName = ''PoP'',
           time = [time_entry ''2024-01-01T00:00'' ''2024-01-01T06:00'' ''10'',
                   time_entry ''2024-01-01T06:00'' ''2024-01-01T12:00'' ''80'']\<rparr>]\<rparr>]"

text \<open>One location record that lists no weather element.\<close>

definition no_element_document :: raw_document where
  "no_element_document = document ''36h'' [\<lparr>locationName = ''Taipei'', weatherElement = []\<rparr>]"

text \<open>An upstream that always resolves with the same document.\<close>

definition resolves_with :: "raw_document \<Rightarrow> upstream" where
  "resolves_with data key name = Resolved data"

subsection \<open>The transform on a store of objects\<close>

text \<open>
  In JavaScript the document, \<^verbatim>\<open>weatherData\<close> and each \<^verbatim>\<open>forecast\<close> are objects with an
  identity, and the transform writes through references. To state which objects it
  writes, lines 84 to 141 are embedded a second time over a store: a list of objects, the
  address of an object being its index. A new object goes to the end of the store; a write
  replaces the object at an address. The document is one object of the store and is read
  through its address in every turn of the loop. The array \<^verbatim>\<open>weatherData.forecasts\<close> is
  kept inside the \<^verbatim>\<open>weatherData\<close> object, as the list of the addresses pushed to it.
  Strings are values, not objects. In the program a reference always leads to the object
  it was made for; an address of the model that does not hold the expected kind of object
  is given the \<open>TypeError\<close> outcome, which no run from a document's address reaches.
\<close>

type_synonym addr = nat

datatype object =
    DocumentObject raw_document
  | WeatherDataObject string string "addr list"
  | ForecastObject forecast

type_synonym store = "object list"

definition new_object :: "object \<Rightarrow> store \<Rightarrow> addr \<times> store" where
  "new_object obj h = (length h, h @ [obj])"

definition document_at :: "addr \<Rightarrow> store \<Rightarrow> raw_document option" where
  "document_at d h =
     (case js_index h d of
        None \<Rightarrow> None
      | Some (DocumentObject data) \<Rightarrow> Some data
      | Some (WeatherDataObject c u fs) \<Rightarrow> None
      | Some (ForecastObject f) \<Rightarrow> None)"

definition forecast_at :: "addr \<Rightarrow> store \<Rightarrow> forecast option" where
  "forecast_at a h =
     (case js_index h a of
        None \<Rightarrow> None
      | Some (DocumentObject data) \<Rightarrow> None
      | Some (WeatherDataObject c u fs) \<Rightarrow> None
      | Some (ForecastObject f) \<Rightarrow> Some f)"

text \<open>
  The callback of lines 116 to 138, writing the field of the forecast object at \<open>a\<close>.
  The result is the error thrown, if any, and the store.
\<close>

definition forEach_callback_store ::
  "nat \<Rightarrow> addr \<Rightarrow> weather_element \<Rightarrow> store \<Rightarrow> error option \<times> store" where
  "forEach_callback_store i a element h =
     (case js_index (time element) i of
        None \<Rightarrow> (Some TypeError, h)
      | Some slot \<Rightarrow>
          (case forecast_at a h of
             None \<Rightarrow> (Some TypeError, h)
           | Some f \<Rightarrow>
               (None, h[a := ForecastObject
                              (switch_elementName (elementName element)
                                 (parameterName (parameter slot)) f)])))"

fun forEach_store ::
  "nat \<Rightarrow> addr \<Rightarrow> weather_element list \<Rightarrow> store \<Rightarrow> error option \<times> store" where
  "forEach_store i a [] h = (None, h)"
| "forEach_store i a (element # rest) h =
     (case forEach_callback_store i a element h of
        (Some e, h') \<Rightarrow> (Some e, h')
      | (None, h') \<Rightarrow> forEach_store i a rest h')"

text \<open>Line 140: \<^verbatim>\<open>weatherData.forecasts.push(forecast)\<close>.\<close>

definition push_forecast :: "addr \<Rightarrow> addr \<Rightarrow> store \<Rightarrow> error option \<times> store" where
  "push_forecast wd a h =
     (case js_index h wd of
        None \<Rightarrow> (Some TypeError, h)
      | Some (DocumentObject data) \<Rightarrow> (Some TypeError, h)
      | Some (WeatherDataObject c u fs) \<Rightarrow> (None, h[wd := WeatherDataObject c u (fs @ [a])])
      | Some (ForecastObject f) \<Rightarrow> (Some TypeError, h))"

text \<open>One turn of the loop: the literal of lines 105 to 114 is a new object.\<close>

definition loop_body_store :: "addr \<Rightarrow> addr \<Rightarrow> nat \<Rightarrow> store \<Rightarrow> error option \<times> store" where
  "loop_body_store d wd i h =
     (case document_at d h of
        None \<Rightarrow> (Some TypeError, h)
      | Some data \<Rightarrow>
          (case js_index (location (records data)) 0 of
             None \<Rightarrow> (Some TypeError, h)
           | Some locationData \<Rightarrow>
               (let weatherElements = weatherElement locationData in
                case js_index weatherElements 0 of
                  None \<Rightarrow> (Some TypeError, h)
                | Some first \<Rightarrow>
                    (case js_index (time first) i of
                       None \<Rightarrow> (Some TypeError, h)
                     | Some slot \<Rightarrow>
                         (case new_object (ForecastObject (new_forecast slot)) h of
                            (a, h1) \<Rightarrow>
                              (case forEach_store i a weatherElements h1 of
                                 (Some e, h2) \<Rightarrow> (Some e, h2)
                               | (None, h2) \<Rightarrow> push_forecast wd a h2))))))"

function for_loop_store ::
  "addr \<Rightarrow> addr \<Rightarrow> nat \<Rightarrow> nat \<Rightarrow> store \<Rightarrow> error option \<times> store" where
  "for_loop_store d wd timeCount i h =
     (if i < timeCount then
        (case loop_body_store d wd i h of
           (Some e, h') \<Rightarrow> (Some e, h')
         | (None, h') \<Rightarrow> for_loop_store d wd timeCount (Suc i) h')
      else (None, h))"
  by pat_completeness auto
termination
  by (relation "measure (\<lambda>(d, wd, timeCount, i, h). timeCount - i)") auto

declare for_loop_store.simps [simp del]

text \<open>
  Lines 84 to 141 on the store; \<open>d\<close> is the address of \<^verbatim>\<open>response.data\<close>. The result is
  the error or the address of \<^verbatim>\<open>weatherData\<close>, and the store the run leaves.
\<close>

definition normalize_store :: "addr \<Rightarrow> string \<Rightarrow> store \<Rightarrow> (error + addr) \<times> store" where
  "normalize_store d cityName h =
     (case document_at d h of
        None \<Rightarrow> (Inl TypeError, h)
      | Some data \<Rightarrow>
          (case js_index (location (records data)) 0 of
             None \<Rightarrow> (Inl (NotFoundError cityName), h)
           | Some locationData \<Rightarrow>
               (case new_object
                       (WeatherDataObject (locationName locationData)
                          (datasetDescription (records data)) []) h of
                  (wd, h1) \<Rightarrow>
                    (case js_index (weatherElement locationData) 0 of
                       None \<Rightarrow> (Inl TypeError, h1)
                     | Some first \<Rightarrow>
                         (case for_loop_store d wd (length (time first)) 0 h1 of
                            (Some e, h2) \<Rightarrow> (Inl e, h2)
                          | (None, h2) \<Rightarrow> (Inr wd, h2))))))"

text \<open>
  What a result is worth as a value: the forecast read back from the store, following
  the addresses.
\<close>

definition weather_data_at :: "addr \<Rightarrow> store \<Rightarrow> weather_data option" where
  "weather_data_at wd h =
     (case js_index h wd of
        None \<Rightarrow> None
      | Some (DocumentObject data) \<Rightarrow> None
      | Some (WeatherDataObject c u as) \<Rightarrow>
          (case those (map (\<lambda>a. forecast_at a h) as) of
             None \<Rightarrow> None
           | Some fs \<Rightarrow> Some \<lparr>city = c, updateTime = u, forecasts = fs\<rparr>)
      | Some (ForecastObject f) \<Rightarrow> None)"

definition outcome_at :: "error + addr \<Rightarrow> store \<Rightarrow> (error + weather_data) option" where
  "outcome_at r h =
     (case r of
        Inl e \<Rightarrow> Some (Inl e)
      | Inr wd \<Rightarrow> map_option Inr (weather_data_at wd h))"

text \<open>
  Auxiliary, to state what a run leaves: the store after the turns that produced \<open>fs\<close>
  is the old store, then \<^verbatim>\<open>weatherData\<close>, then one forecast object for each turn.
\<close>

definition store_after :: "store \<Rightarrow> string \<Rightarrow> string \<Rightarrow> forecast list \<Rightarrow> store" where
  "store_after h0 c u fs =
     h0 @ WeatherDataObject c u (map (\<lambda>j. Suc (length h0) + j) [0..<length fs]) #
          map ForecastObject fs"

section \<open>Properties of the transform\<close>

subsection \<open>The callback, one turn, the loop\<close>

lemma forEach_in_range:
  "\<forall>e\<in>set es. i < length (time e) \<Longrightarrow> forEach i es f = Inr (fold (written i) es f)"
  by (induction es arbitrary: f) (simp_all add: forEach_callback_def js_index_def written_def)

lemma forEach_out_of_range:
  "\<exists>e\<in>set es. \<not> i < length (time e) \<Longrightarrow> forEach i es f = Inl TypeError"
  by (induction es arbitrary: f) (auto simp: forEach_callback_def js_index_def split: sum.splits)

lemma forEach_error: "forEach i es f = Inl e \<Longrightarrow> e = TypeError"
  by (induction es arbitrary: f) (auto simp: forEach_callback_def js_index_def split: sum.splits if_splits)

lemma loop_body_error: "loop_body es i = Inl e \<Longrightarrow> e = TypeError"
  by (auto simp: loop_body_def js_index_def dest: forEach_error split: if_splits)

lemma for_loop_error: "for_loop es n i acc = Inl e \<Longrightarrow> e = TypeError"
proof (induction es n i acc rule: for_loop.induct)
  case (1 es n i acc)
  show ?case
  proof (cases "i < n")
    case False
    with "1.prems" show ?thesis by (simp add: for_loop.simps)
  next
    case True
    show ?thesis
    proof (cases "loop_body es i")
      case (Inl e')
      with True "1.prems" show ?thesis
        by (auto simp: for_loop.simps [of es n i acc] dest: loop_body_error)
    next
      case (Inr f)
      with True "1.prems" "1.IH" show ?thesis
        by (simp add: for_loop.simps [of es n i acc])
    qed
  qed
qed

lemma for_loop_all_turns:
  "\<forall>j. i \<le> j \<and> j < n \<longrightarrow> loop_body es j = Inr (g j) \<Longrightarrow>
   for_loop es n i acc = Inr (acc @ map g [i..<n])"
proof (induction es n i acc rule: for_loop.induct)
  case (1 es n i acc)
  show ?case
  proof (cases "i < n")
    case False
    then show ?thesis by (simp add: for_loop.simps)
  next
    case True
    with "1.prems" have b: "loop_body es i = Inr (g i)" by simp
    from "1.prems" have "\<forall>j. Suc i \<le> j \<and> j < n \<longrightarrow> loop_body es j = Inr (g j)" by simp
    with "1.IH" [OF True b] have "for_loop es n (Suc i) (acc @ [g i]) = Inr ((acc @ [g i]) @ map g [Suc i..<n])"
      by blast
    with True b show ?thesis
      by (simp add: for_loop.simps [of es n i acc] upt_conv_Cons)
  qed
qed

lemma for_loop_failing_turn:
  "i \<le> j \<Longrightarrow> j < n \<Longrightarrow> loop_body es j = Inl e \<Longrightarrow> for_loop es n i acc = Inl TypeError"
proof (induction es n i acc rule: for_loop.induct)
  case (1 es n i acc)
  from "1.prems" have lt: "i < n" by simp
  show ?case
  proof (cases "loop_body es i")
    case (Inl e')
    with lt show ?thesis
      by (auto simp: for_loop.simps [of es n i acc] dest: loop_body_error)
  next
    case (Inr f)
    with "1.prems" have "i \<noteq> j" by auto
    with "1.prems" have "Suc i \<le> j" by simp
    from "1.IH" [OF lt Inr this "1.prems"(2,3)] lt Inr show ?thesis
      by (simp add: for_loop.simps [of es n i acc])
  qed
qed

lemma loop_body_in_range:
  assumes "es = first # others" and "i < length (time first)"
    and "\<forall>e\<in>set es. length (time first) \<le> length (time e)"
  shows "loop_body es i = Inr (entry es i)"
proof -
  from assms have "\<forall>e\<in>set es. i < length (time e)" by auto
  then have "forEach i es (new_forecast (time first ! i)) = Inr (fold (written i) es (new_forecast (time first ! i)))"
    by (rule forEach_in_range)
  with assms(1,2) show ?thesis
    by (simp add: loop_body_def js_index_def entry_def)
qed

lemma loop_body_out_of_range:
  assumes "es = first # others" and "i < length (time first)"
    and "e \<in> set es" and "\<not> i < length (time e)"
  shows "loop_body es i = Inl TypeError"
proof -
  from assms(3,4) have "\<exists>e\<in>set es. \<not> i < length (time e)" by blast
  then have "forEach i es (new_forecast (time first ! i)) = Inl TypeError"
    by (rule forEach_out_of_range)
  with assms(1,2) show ?thesis
    by (simp add: loop_body_def js_index_def)
qed

lemma normalize_in_range:
  assumes "location (records data) = locationData # rest"
    and "weatherElement locationData = first # others"
    and "\<forall>e\<in>set (first # others). length (time first) \<le> length (time e)"
  shows "normalize data cityName =
           Inr \<lparr>city = locationName locationData,
                updateTime = datasetDescription (records data),
                forecasts = map (entry (first # others)) [0..<length (time first)]\<rparr>"
proof -
  have "\<forall>j. 0 \<le> j \<and> j < length (time first) \<longrightarrow>
          loop_body (first # others) j = Inr (entry (first # others) j)"
    using assms(3) by (simp add: loop_body_in_range [of "first # others" first others])
  then have "for_loop (first # others) (length (time first)) 0 [] =
               Inr ([] @ map (entry (first # others)) [0..<length (time first)])"
    by (rule for_loop_all_turns)
  with assms(1,2) show ?thesis
    by (simp add: normalize_def js_index_def)
qed

lemma normalize_out_of_range:
  assumes "location (records data) = locationData # rest"
    and "weatherElement locationData = first # others"
    and "e \<in> set others" and "length (time e) < length (time first)"
  shows "normalize data cityName = Inl TypeError"
proof -
  let ?j = "length (time e)"
  have "first # others = first # others" ..
  moreover note assms(4)
  moreover from assms(3) have "e \<in> set (first # others)" by simp
  moreover have "\<not> ?j < length (time e)" by simp
  ultimately have "loop_body (first # others) ?j = Inl TypeError"
    by (rule loop_body_out_of_range)
  with assms(4) have "for_loop (first # others) (length (time first)) 0 [] = Inl TypeError"
    using for_loop_failing_turn [of 0 ?j "length (time first)" "first # others" TypeError "[]"]
    by simp
  with assms(1,2) show ?thesis
    by (simp add: normalize_def js_index_def)
qed

lemma normalize_no_element:
  assumes "location (records data) = locationData # rest"
    and "weatherElement locationData = []"
  shows "normalize data cityName = Inl TypeError"
  using assms by (simp add: normalize_def js_index_def)

lemma normalize_no_location:
  assumes "location (records data) = []"
  shows "normalize data cityName = Inl (NotFoundError cityName)"
  using assms by (simp add: normalize_def js_index_def)

lemma normalize_returns:
  assumes "normalize data cityName = Inr out"
    and "location (records data) = locationData # rest"
  shows "\<exists>first others. weatherElement locationData = first # others \<and>
           (\<forall>e\<in>set (first # others). length (time first) \<le> length (time e)) \<and>
           out = \<lparr>city = locationName locationData,
                  updateTime = datasetDescription (records data),
                  forecasts = map (entry (first # others)) [0..<length (time first)]\<rparr>"
proof (cases "weatherElement locationData")
  case Nil
  with assms show ?thesis by (simp add: normalize_no_element)
next
  case (Cons first others)
  have al: "\<forall>e\<in>set (first # others). length (time first) \<le> length (time e)"
  proof (rule ccontr)
    assume "\<not> ?thesis"
    then obtain e where "e \<in> set others" "length (time e) < length (time first)"
      by auto
    with assms(2) Cons have "normalize data cityName = Inl TypeError"
      by (rule normalize_out_of_range)
    with assms(1) show False by simp
  qed
  with assms Cons show ?thesis
    by (simp add: normalize_in_range)
qed

lemma written_times:
  "forecast.startTime (written i e f) = forecast.startTime f"
  "forecast.endTime (written i e f) = forecast.endTime f"
  by (simp_all add: written_def switch_elementName_def)

lemma fold_written_times:
  "forecast.startTime (fold (written i) es f) = forecast.startTime f \<and>
   forecast.endTime (fold (written i) es f) = forecast.endTime f"
  by (induction es arbitrary: f) (simp_all add: written_times)

lemma entry_times:
  "forecast.startTime (entry (first # others) i) = time_slot.startTime (time first ! i)"
  "forecast.endTime (entry (first # others) i) = time_slot.endTime (time first ! i)"
proof -
  let ?f = "new_forecast (time first ! i)"
  have "forecast.startTime (fold (written i) (first # others) ?f) = forecast.startTime ?f"
    and "forecast.endTime (fold (written i) (first # others) ?f) = forecast.endTime ?f"
    using fold_written_times [of i "first # others" ?f] by blast+
  then show "forecast.startTime (entry (first # others) i) = time_slot.startTime (time first ! i)"
    and "forecast.endTime (entry (first # others) i) = time_slot.endTime (time first ! i)"
    by (simp_all add: entry_def new_forecast_def)
qed

lemma fold_written_weather:
  "weather (fold (written i) es f) =
     (case last_named ''Wx'' es of None \<Rightarrow> weather f
      | Some e \<Rightarrow> parameterName (parameter (time e ! i)))"
  by (induction es rule: rev_induct)
     (simp_all add: last_named_def written_def switch_elementName_def)

lemma fold_written_rain:
  "rain (fold (written i) es f) =
     (case last_named ''PoP'' es of None \<Rightarrow> rain f
      | Some e \<Rightarrow> parameterName (parameter (time e ! i)) @ ''%'')"
  by (induction es rule: rev_induct)
     (simp_all add: last_named_def written_def switch_elementName_def)

lemma fold_written_minTemp:
  "minTemp (fold (written i) es f) =
     (case last_named ''MinT'' es of None \<Rightarrow> minTemp f
      | Some e \<Rightarrow> parameterName (parameter (time e ! i)) @ degC)"
  by (induction es rule: rev_induct)
     (simp_all add: last_named_def written_def switch_elementName_def)

lemma fold_written_maxTemp:
  "maxTemp (fold (written i) es f) =
     (case last_named ''MaxT'' es of None \<Rightarrow> maxTemp f
      | Some e \<Rightarrow> parameterName (parameter (time e ! i)) @ degC)"
  by (induction es rule: rev_induct)
     (simp_all add: last_named_def written_def switch_elementName_def)

lemma fold_written_comfort:
  "comfort (fold (written i) es f) =
     (case last_named ''CI'' es of None \<Rightarrow> comfort f
      | Some e \<Rightarrow> parameterName (parameter (time e ! i)))"
  by (induction es rule: rev_induct)
     (simp_all add: last_named_def written_def switch_elementName_def)

lemma fold_written_windSpeed:
  "windSpeed (fold (written i) es f) =
     (case last_named ''WS'' es of None \<Rightarrow> windSpeed f
      | Some e \<Rightarrow> parameterName (parameter (time e ! i)))"
  by (induction es rule: rev_induct)
     (simp_all add: last_named_def written_def switch_elementName_def)

lemma field_text_absent:
  assumes "\<forall>e\<in>set es. elementName e \<noteq> name"
  shows "field_text name suffix es i = ''''"
proof -
  from assms have "find (\<lambda>e. elementName e = name) (rev es) = None"
    by (simp add: find_None_iff)
  then show ?thesis by (simp add: field_text_def last_named_def)
qed

lemma field_text_last:
  assumes "elementName e = name" and "\<forall>e'\<in>set later. elementName e' \<noteq> name"
  shows "field_text name suffix (earlier @ e # later) i =
           parameterName (parameter (time e ! i)) @ suffix"
proof -
  have "find (\<lambda>e. elementName e = name) (xs @ e # ys) = Some e"
    if "\<forall>e'\<in>set xs. elementName e' \<noteq> name" for xs ys
    using that assms(1) by (induction xs) simp_all
  from this [of "rev later" "rev earlier"] assms(2) show ?thesis
    by (simp add: field_text_def last_named_def)
qed

lemma entry_fields:
  "weather (entry es i) = field_text ''Wx'' '''' es i"
  "rain (entry es i) = field_text ''PoP'' ''%'' es i"
  "minTemp (entry es i) = field_text ''MinT'' degC es i"
  "maxTemp (entry es i) = field_text ''MaxT'' degC es i"
  "comfort (entry es i) = field_text ''CI'' '''' es i"
  "windSpeed (entry es i) = field_text ''WS'' '''' es i"
  by (simp_all add: entry_def field_text_def new_forecast_def fold_written_weather
      fold_written_rain fold_written_minTemp fold_written_maxTemp fold_written_comfort
      fold_written_windSpeed split: option.splits)

subsection \<open>Evaluating the sample documents\<close>

lemma scenario_elements:
  "location (records scenario_document) =
     [\<lparr>locationName = ''Taipei'',
       weatherElement =
         [\<lparr>elementName = ''Wx'',
           time = [time_entry ''2024-01-01T00:00'' ''2024-01-01T06:00'' ''Cloudy'',
                   time_entry ''2024-01-01T06:00'' ''2024-01-01T12:00'' ''Rainy'']\<rparr>,
          \<lparr>elementName = ''PoP'',
           time = [time_entry ''2024-01-01T00:00'' ''2024-01-01T06:00'' ''10'',
                   time_entry ''2024-01-01T06:00'' ''2024-01-01T12:00'' ''80'']\<rparr>]\<rparr>]"
  by (simp add: scenario_document_def document_def)

lemma normalize_scenario:
  "normalize scenario_document cityName =
     Inr \<lparr>city = ''Taipei'', updateTime = ''36h'',
          forecasts =
            [\<lparr>startTime = ''2024-01-01T00:00'', endTime = ''2024-01-01T06:00'',
              weather = ''Cloudy'', rain = ''10%'', minTemp = '''', maxTemp = '''',
              comfort = '''', windSpeed = ''''\<rparr>,
             \<lparr>startTime = ''2024-01-01T06:00'', endTime = ''2024-01-01T12:00'',
              weather = ''Rainy'', rain = ''80%'', minTemp = '''', maxTemp = '''',
              comfort = '''', windSpeed = ''''\<rparr>]\<rparr>"
  by (simp add: scenario_document_def document_def time_entry_def normalize_def js_index_def
      for_loop.simps loop_body_def forEach_callback_def switch_elementName_def
      new_forecast_def)

subsection \<open>The handlers and the table\<close>

lemma catch_block_CITY_MAP: "CITY_MAP (snd (catch_block cityName ex s)) = CITY_MAP s"
  by (simp add: catch_block_def Let_def split: exception.splits option.splits)

lemma getCityWeather_CITY_MAP: "CITY_MAP (snd (getCityWeather axios_get cityName s)) = CITY_MAP s"
  by (simp add: getCityWeather_def Let_def catch_block_CITY_MAP
      split: option.splits axios_result.splits sum.splits error.splits)

lemma handle_CITY_MAP: "CITY_MAP (snd (handle toLowerCase axios_get req s)) = CITY_MAP s"
  by (cases req)
     (simp_all add: handle_def root_route_def health_route_def weather_route_def
      not_found_handler_def error_handler_def Let_def getCityWeather_CITY_MAP)

lemma weather_route_same_code:
  "toLowerCase p = toLowerCase q \<Longrightarrow>
   weather_route toLowerCase axios_get p s = weather_route toLowerCase axios_get q s"
  by (simp add: weather_route_def)

lemma weather_route_resolves:
  assumes "map_of (CITY_MAP s) (toLowerCase param) = Some name" and "name \<noteq> []"
  shows "weather_route toLowerCase axios_get param s = getCityWeather axios_get (Str name) s"
  using assms by (simp add: weather_route_def get_property_def truthy_def)

lemma weather_route_rejects:
  assumes "map_of (CITY_MAP s) (toLowerCase param) = None"
    and "Object_prototype (toLowerCase param) = Undefined"
  shows "weather_route toLowerCase axios_get param s =
           (\<lparr>status = 400,
             body = UnsupportedBody text_unsupported text_use_codes
                      (Object_keys (CITY_MAP s)) (toLowerCase param)\<rparr>, s)"
  using assms by (simp add: weather_route_def get_property_def truthy_def)

lemma decimal_22: "decimal 22 = ''22''"
  by (simp add: decimal.simps)

lemma listen_callback_CITY_MAP: "CITY_MAP (listen_callback port node_env s) = CITY_MAP s"
  by (simp add: listen_callback_def)

lemma serve_CITY_MAP: "CITY_MAP (serve toLowerCase requests s) = CITY_MAP s"
  by (induction toLowerCase requests s rule: serve.induct) (simp_all add: handle_CITY_MAP)

lemma getCityWeather_without_key:
  assumes "CWA_API_KEY s = None \<or> CWA_API_KEY s = Some ''''"
  shows "getCityWeather axios_get cityName s =
           (\<lparr>status = 500, body = ErrorBody text_config_error text_config_message\<rparr>, s)"
  using assms by (auto simp: getCityWeather_def)

lemma normalize_error_cases:
  assumes "normalize data name = Inl e"
  shows "(e = NotFoundError name \<and> location (records data) = []) \<or>
         (e = TypeError \<and>
          (\<exists>locationData rest. location (records data) = locationData # rest \<and>
             (weatherElement locationData = [] \<or>
              (\<exists>element\<in>set (weatherElement locationData).
                 length (time element) < length (time (hd (weatherElement locationData)))))))"
proof (cases "location (records data)")
  case Nil
  with assms show ?thesis by (simp add: normalize_no_location)
next
  case (Cons locationData rest)
  show ?thesis
  proof (cases "weatherElement locationData")
    case Nil
    with Cons assms show ?thesis by (simp add: normalize_no_element)
  next
    case es: (Cons first others)
    have short: "\<exists>element\<in>set (first # others). length (time element) < length (time first)"
    proof (rule ccontr)
      assume "\<not> ?thesis"
      then have "\<forall>e\<in>set (first # others). length (time first) \<le> length (time e)"
        by (simp add: not_less)
      with Cons es assms show False by (simp add: normalize_in_range)
    qed
    then obtain element where el: "element \<in> set others"
      "length (time element) < length (time first)" by auto
    with Cons es have "normalize data name = Inl TypeError"
      by (rule normalize_out_of_range)
    with assms have "e = TypeError" by simp
    with Cons es short show ?thesis by simp
  qed
qed

subsection \<open>The store version against the functional one\<close>

lemma forEach_store_writes:
  assumes "a < length h" and "h ! a = ForecastObject f"
  shows "\<exists>f'. snd (forEach_store i a es h) = h[a := ForecastObject f'] \<and>
              (case forEach i es f of
                 Inl e \<Rightarrow> fst (forEach_store i a es h) = Some e
               | Inr f'' \<Rightarrow> fst (forEach_store i a es h) = None \<and> f' = f'')"
  using assms
proof (induction es arbitrary: h f)
  case Nil
  then have "h[a := ForecastObject f] = h" by (metis list_update_id)
  then show ?case by auto
next
  case (Cons element rest)
  show ?case
  proof (cases "js_index (time element) i")
    case None
    from Cons.prems have "h = h[a := ForecastObject f]" by (metis list_update_id)
    then have "\<exists>f'. h = h[a := ForecastObject f']" ..
    with None show ?thesis
      by (simp add: forEach_callback_store_def forEach_callback_def)
  next
    case (Some slot)
    let ?f1 = "switch_elementName (elementName element) (parameterName (parameter slot)) f"
    let ?h1 = "h[a := ForecastObject ?f1]"
    from Cons.prems have fa: "forecast_at a h = Some f"
      by (simp add: forecast_at_def js_index_def)
    from Cons.prems have "a < length ?h1" and "?h1 ! a = ForecastObject ?f1" by simp_all
    from Cons.IH [OF this] obtain f' where
      s: "snd (forEach_store i a rest ?h1) = ?h1[a := ForecastObject f']"
      and r: "case forEach i rest ?f1 of
                 Inl e \<Rightarrow> fst (forEach_store i a rest ?h1) = Some e
               | Inr f'' \<Rightarrow> fst (forEach_store i a rest ?h1) = None \<and> f' = f''"
      by blast
    have st: "forEach_store i a (element # rest) h = forEach_store i a rest ?h1"
      using Some fa by (simp add: forEach_callback_store_def)
    have fu: "forEach i (element # rest) f = forEach i rest ?f1"
      using Some by (simp add: forEach_callback_def)
    have "?h1[a := ForecastObject f'] = h[a := ForecastObject f']" by simp
    with s have "snd (forEach_store i a rest ?h1) = h[a := ForecastObject f']" by simp
    with r show ?thesis
      unfolding st fu by blast
  qed
qed

lemma document_at_append: "document_at d h = Some data \<Longrightarrow> document_at d (h @ new) = Some data"
  by (cases "d < length h") (simp_all add: document_at_def js_index_def nth_append)

lemma store_after_length: "length (store_after h0 c u fs) = Suc (length h0 + length fs)"
  by (simp add: store_after_def)

lemma store_after_weatherData:
  "store_after h0 c u fs ! length h0 =
     WeatherDataObject c u (map (\<lambda>j. Suc (length h0) + j) [0..<length fs])"
  by (simp add: store_after_def nth_append)

lemma store_after_document:
  "document_at d h0 = Some data \<Longrightarrow> document_at d (store_after h0 c u fs) = Some data"
  by (simp add: store_after_def document_at_append)

lemma store_after_push:
  "(store_after h0 c u fs @ [ForecastObject f])
     [length h0 := WeatherDataObject c u
        (map (\<lambda>j. Suc (length h0) + j) [0..<length fs] @ [length (store_after h0 c u fs)])] =
   store_after h0 c u (fs @ [f])"
  by (simp add: store_after_def list_update_append)

lemma loop_body_store_turn:
  assumes doc: "document_at d h0 = Some data"
    and loc: "location (records data) = locationData # rest"
  shows "case loop_body (weatherElement locationData) i of
           Inr f \<Rightarrow>
             loop_body_store d (length h0) i (store_after h0 c u fs) =
               (None, store_after h0 c u (fs @ [f]))
         | Inl e \<Rightarrow>
             (\<exists>new. loop_body_store d (length h0) i (store_after h0 c u fs) =
                      (Some e, h0 @ new))"
proof -
  let ?h = "store_after h0 c u fs"
  let ?es = "weatherElement locationData"
  note d = store_after_document [OF doc, of c u fs]
  show ?thesis
  proof (cases "js_index ?es 0")
    case None
    then show ?thesis
      using d loc by (auto simp: loop_body_store_def loop_body_def js_index_def store_after_def)
  next
    case first: (Some first)
    show ?thesis
    proof (cases "js_index (time first) i")
      case None
      with first show ?thesis
        using d loc by (auto simp: loop_body_store_def loop_body_def js_index_def store_after_def)
    next
      case slot: (Some slot)
      let ?a = "length ?h"
      let ?h1 = "?h @ [ForecastObject (new_forecast slot)]"
      have "?a < length ?h1" and "?h1 ! ?a = ForecastObject (new_forecast slot)" by simp_all
      from forEach_store_writes [OF this, of i ?es] obtain f' where
        s: "snd (forEach_store i ?a ?es ?h1) = ?h1[?a := ForecastObject f']"
        and r: "case forEach i ?es (new_forecast slot) of
                 Inl e \<Rightarrow> fst (forEach_store i ?a ?es ?h1) = Some e
               | Inr f'' \<Rightarrow> fst (forEach_store i ?a ?es ?h1) = None \<and> f' = f''"
        by blast
      have h2: "?h1[?a := ForecastObject f'] = ?h @ [ForecastObject f']" by simp
      have lb: "loop_body ?es i = forEach i ?es (new_forecast slot)"
        using first slot by (simp add: loop_body_def)
      have lbs: "loop_body_store d (length h0) i ?h =
                  (case forEach_store i ?a ?es ?h1 of
                     (Some e, h2) \<Rightarrow> (Some e, h2)
                   | (None, h2) \<Rightarrow> push_forecast (length h0) ?a h2)"
        using d loc first slot by (simp add: loop_body_store_def js_index_def new_object_def)
      show ?thesis
      proof (cases "forEach i ?es (new_forecast slot)")
        case (Inl e)
        with r have "fst (forEach_store i ?a ?es ?h1) = Some e" by simp
        with s h2 have fe: "forEach_store i ?a ?es ?h1 = (Some e, ?h @ [ForecastObject f'])"
          by (metis prod.collapse)
        have "loop_body_store d (length h0) i ?h = (Some e, ?h @ [ForecastObject f'])"
          unfolding lbs fe by simp
        moreover have "?h @ [ForecastObject f'] =
                         h0 @ (drop (length h0) ?h @ [ForecastObject f'])"
          by (simp add: store_after_def)
        ultimately have "\<exists>new. loop_body_store d (length h0) i ?h = (Some e, h0 @ new)"
          by metis
        with Inl lb show ?thesis by simp
      next
        case (Inr f)
        with r have "fst (forEach_store i ?a ?es ?h1) = None" and "f' = f" by simp_all
        with s h2 have fe: "forEach_store i ?a ?es ?h1 = (None, ?h @ [ForecastObject f])"
          by (metis prod.collapse)
        have "push_forecast (length h0) ?a (?h @ [ForecastObject f]) =
                (None, store_after h0 c u (fs @ [f]))"
          using store_after_push [of h0 c u fs f]
          by (simp add: push_forecast_def js_index_def nth_append store_after_length
              store_after_weatherData)
        then have "loop_body_store d (length h0) i ?h = (None, store_after h0 c u (fs @ [f]))"
          unfolding lbs fe by simp
        with Inr lb show ?thesis by simp
      qed
    qed
  qed
qed

lemma for_loop_store_run:
  assumes doc: "document_at d h0 = Some data"
    and loc: "location (records data) = locationData # rest"
  shows "case for_loop (weatherElement locationData) n i acc of
           Inr fs \<Rightarrow>
             for_loop_store d (length h0) n i (store_after h0 c u acc) =
               (None, store_after h0 c u fs)
         | Inl e \<Rightarrow>
             (\<exists>new. for_loop_store d (length h0) n i (store_after h0 c u acc) =
                      (Some e, h0 @ new))"
proof (induction "weatherElement locationData" n i acc rule: for_loop.induct)
  case (1 n i acc)
  let ?es = "weatherElement locationData"
  show ?case
  proof (cases "i < n")
    case False
    then show ?thesis
      by (simp add: for_loop.simps [of ?es n i acc]
          for_loop_store.simps [of d "length h0" n i "store_after h0 c u acc"])
  next
    case True
    note turn = loop_body_store_turn [OF doc loc, where i = i and c = c and u = u and fs = acc]
    show ?thesis
    proof (cases "loop_body ?es i")
      case (Inl e)
      with turn obtain new where
        "loop_body_store d (length h0) i (store_after h0 c u acc) = (Some e, h0 @ new)"
        by auto
      with True Inl show ?thesis
        by (simp add: for_loop.simps [of ?es n i acc]
            for_loop_store.simps [of d "length h0" n i "store_after h0 c u acc"])
    next
      case (Inr f)
      with turn have
        "loop_body_store d (length h0) i (store_after h0 c u acc) =
           (None, store_after h0 c u (acc @ [f]))"
        by simp
      with True Inr "1.hyps" [OF True Inr] show ?thesis
        by (simp add: for_loop.simps [of ?es n i acc]
            for_loop_store.simps [of d "length h0" n i "store_after h0 c u acc"]
            split: sum.splits)
    qed
  qed
qed

lemma those_map_Some: "those (map (\<lambda>x. Some (g x)) xs) = Some (map g xs)"
  by (induction xs) simp_all

lemma weather_data_at_store_after:
  "weather_data_at (length h0) (store_after h0 c u fs @ new) =
     Some \<lparr>city = c, updateTime = u, forecasts = fs\<rparr>"
proof -
  let ?h = "store_after h0 c u fs @ new"
  have "forecast_at (Suc (length h0) + j) ?h = Some (fs ! j)" if "j < length fs" for j
    using that by (simp add: forecast_at_def js_index_def store_after_def nth_append)
  then have "map (\<lambda>a. forecast_at a ?h) (map (\<lambda>j. Suc (length h0) + j) [0..<length fs]) =
             map (\<lambda>j. Some (fs ! j)) [0..<length fs]"
    by simp
  then have "those (map (\<lambda>a. forecast_at a ?h)
                     (map (\<lambda>j. Suc (length h0) + j) [0..<length fs])) =
             Some (map (\<lambda>j. fs ! j) [0..<length fs])"
    by (simp only: those_map_Some)
  moreover have "map (\<lambda>j. fs ! j) [0..<length fs] = fs" by (rule map_nth)
  moreover have "js_index ?h (length h0) =
      Some (WeatherDataObject c u (map (\<lambda>j. Suc (length h0) + j) [0..<length fs]))"
    by (simp add: js_index_def store_after_def nth_append)
  ultimately show ?thesis
    by (simp add: weather_data_at_def)
qed

lemma normalize_store_run:
  assumes doc: "document_at d h = Some data"
  shows "\<exists>new. snd (normalize_store d cityName h) = h @ new \<and>
           (\<forall>later. outcome_at (fst (normalize_store d cityName h)) (h @ new @ later) =
                      Some (normalize data cityName))"
proof (cases "location (records data)")
  case Nil
  with doc have "normalize_store d cityName h = (Inl (NotFoundError cityName), h)"
    by (simp add: normalize_store_def js_index_def)
  moreover from Nil have "normalize data cityName = Inl (NotFoundError cityName)"
    by (simp add: normalize_def js_index_def)
  ultimately show ?thesis by (simp add: outcome_at_def)
next
  case (Cons locationData rest)
  let ?c = "locationName locationData" and ?u = "datasetDescription (records data)"
  let ?es = "weatherElement locationData"
  have h1: "h @ [WeatherDataObject ?c ?u []] = store_after h ?c ?u []"
    by (simp add: store_after_def)
  show ?thesis
  proof (cases "js_index ?es 0")
    case None
    with doc Cons have "normalize_store d cityName h = (Inl TypeError, h @ [WeatherDataObject ?c ?u []])"
      by (simp add: normalize_store_def js_index_def new_object_def)
    moreover from None Cons have "normalize data cityName = Inl TypeError"
      by (simp add: normalize_def js_index_def)
    ultimately show ?thesis by (simp add: outcome_at_def)
  next
    case (Some first)
    let ?n = "length (time first)"
    from doc Cons Some have ns: "normalize_store d cityName h =
        (case for_loop_store d (length h) ?n 0 (store_after h ?c ?u []) of
           (Some e, h2) \<Rightarrow> (Inl e, h2)
         | (None, h2) \<Rightarrow> (Inr (length h), h2))"
      by (simp add: normalize_store_def js_index_def new_object_def h1)
    from Cons Some have nf: "normalize data cityName =
        (case for_loop ?es ?n 0 [] of
           Inl e \<Rightarrow> Inl e
         | Inr fs \<Rightarrow> Inr \<lparr>city = ?c, updateTime = ?u, forecasts = fs\<rparr>)"
      by (simp add: normalize_def js_index_def split: sum.splits)
    note run = for_loop_store_run [OF doc Cons, where n = ?n and i = 0 and acc = "[]"
        and c = ?c and u = ?u]
    show ?thesis
    proof (cases "for_loop ?es ?n 0 []")
      case (Inl e)
      with run obtain new where
        "for_loop_store d (length h) ?n 0 (store_after h ?c ?u []) = (Some e, h @ new)"
        by auto
      with Inl ns nf show ?thesis by (simp add: outcome_at_def)
    next
      case (Inr fs)
      with run have "for_loop_store d (length h) ?n 0 (store_after h ?c ?u []) =
                       (None, store_after h ?c ?u fs)"
        by simp
      with ns have r: "normalize_store d cityName h = (Inr (length h), store_after h ?c ?u fs)"
        by simp
      let ?new = "WeatherDataObject ?c ?u (map (\<lambda>j. Suc (length h) + j) [0..<length fs]) #
                  map ForecastObject fs"
      have e: "store_after h ?c ?u fs = h @ ?new" by (simp add: store_after_def)
      have "outcome_at (Inr (length h)) (h @ ?new @ later) = Some (normalize data cityName)"
        for later
      proof -
        have "h @ ?new @ later = store_after h ?c ?u fs @ later"
          by (simp add: store_after_def)
        then have "weather_data_at (length h) (h @ ?new @ later) =
                     Some \<lparr>city = ?c, updateTime = ?u, forecasts = fs\<rparr>"
          by (simp only: weather_data_at_store_after)
        with Inr nf show ?thesis by (simp add: outcome_at_def)
      qed
      with r e show ?thesis by (metis fst_conv snd_conv)
    qed
  qed
qed

text \<open>
  The \<^verbatim>\<open>weatherData\<close> object keeps its first two fields through every step, whether the
  step completes or throws.
\<close>

lemma forEach_callback_store_keeps:
  assumes "js_index h wd = Some (WeatherDataObject c u as)"
  shows "js_index (snd (forEach_callback_store i a element h)) wd =
           Some (WeatherDataObject c u as)"
  using assms
  by (auto simp: forEach_callback_store_def forecast_at_def js_index_def nth_list_update
      split: option.splits object.splits if_splits)

lemma forEach_store_keeps:
  assumes "js_index h wd = Some (WeatherDataObject c u as)"
  shows "js_index (snd (forEach_store i a es h)) wd = Some (WeatherDataObject c u as)"
  using assms
proof (induction es arbitrary: h)
  case Nil
  then show ?case by simp
next
  case (Cons element rest)
  obtain r h' where cb: "forEach_callback_store i a element h = (r, h')"
    by (cases "forEach_callback_store i a element h")
  with forEach_callback_store_keeps [OF Cons.prems, of i a element]
  have k: "js_index h' wd = Some (WeatherDataObject c u as)" by simp
  show ?case
  proof (cases r)
    case None
    with cb Cons.IH [OF k] show ?thesis by simp
  next
    case (Some e)
    with cb k show ?thesis by simp
  qed
qed

lemma push_forecast_keeps:
  assumes "js_index h wd = Some (WeatherDataObject c u as)"
  shows "\<exists>as'. js_index (snd (push_forecast wd a h)) wd = Some (WeatherDataObject c u as')"
  using assms by (auto simp: push_forecast_def js_index_def split: if_splits)

lemma loop_body_store_keeps:
  assumes "js_index h wd = Some (WeatherDataObject c u as)"
  shows "\<exists>as'. js_index (snd (loop_body_store d wd i h)) wd =
                  Some (WeatherDataObject c u as')"
proof -
  have old: "js_index (h @ [obj]) wd = Some (WeatherDataObject c u as)" for obj
    using assms by (auto simp: js_index_def nth_append split: if_splits)
  have "\<exists>as'. js_index (snd (case forEach_store i a es (h @ [obj]) of
                                 (None, h2) \<Rightarrow> push_forecast wd a h2
                               | (Some e, h2) \<Rightarrow> (Some e, h2))) wd =
                Some (WeatherDataObject c u as')" for a es obj
  proof -
    obtain r h2 where fe: "forEach_store i a es (h @ [obj]) = (r, h2)"
      by (cases "forEach_store i a es (h @ [obj])")
    with forEach_store_keeps [OF old, of i a es obj]
    have k: "js_index h2 wd = Some (WeatherDataObject c u as)" by simp
    show ?thesis
    proof (cases r)
      case None
      with fe push_forecast_keeps [OF k, of a] show ?thesis by simp
    next
      case (Some e)
      with fe k show ?thesis by simp
    qed
  qed
  with assms show ?thesis
    by (auto simp: loop_body_store_def new_object_def Let_def split: option.splits)
qed

lemma for_loop_store_keeps:
  assumes "js_index h wd = Some (WeatherDataObject c u as)"
  shows "\<exists>as'. js_index (snd (for_loop_store d wd n i h)) wd =
                  Some (WeatherDataObject c u as')"
  using assms
proof (induction d wd n i h arbitrary: as rule: for_loop_store.induct)
  case (1 d wd n i h)
  show ?case
  proof (cases "i < n")
    case False
    with "1.prems" show ?thesis
      by (simp add: for_loop_store.simps [of d wd n i h])
  next
    case True
    obtain r h' where lb: "loop_body_store d wd i h = (r, h')"
      by (cases "loop_body_store d wd i h")
    with loop_body_store_keeps [OF "1.prems", of d i] obtain as' where
      k: "js_index h' wd = Some (WeatherDataObject c u as')" by auto
    show ?thesis
    proof (cases r)
      case None
      with True lb "1.IH" [OF True _ _ k] show ?thesis
        by (simp add: for_loop_store.simps [of d wd n i h])
    next
      case (Some e)
      with True lb k show ?thesis
        by (simp add: for_loop_store.simps [of d wd n i h])
    qed
  qed
qed

lemma normalize_store_weatherData:
  assumes "document_at d h = Some data"
    and "location (records data) = locationData # rest"
  shows "\<exists>as. js_index (snd (normalize_store d cityName h)) (length h) =
                 Some (WeatherDataObject (locationName locationData)
                         (datasetDescription (records data)) as)"
proof -
  let ?c = "locationName locationData" and ?u = "datasetDescription (records data)"
  let ?h1 = "h @ [WeatherDataObject ?c ?u []]"
  have k: "js_index ?h1 (length h) = Some (WeatherDataObject ?c ?u [])"
    by (simp add: js_index_def)
  show ?thesis
  proof (cases "js_index (weatherElement locationData) 0")
    case None
    with assms k show ?thesis
      by (simp add: normalize_store_def new_object_def js_index_def)
  next
    case (Some first)
    obtain r h2 where fl: "for_loop_store d (length h) (length (time first)) 0 ?h1 = (r, h2)"
      by (cases "for_loop_store d (length h) (length (time first)) 0 ?h1")
    with for_loop_store_keeps [OF k, of d "length (time first)" 0] obtain as' where
      "js_index h2 (length h) = Some (WeatherDataObject ?c ?u as')" by auto
    with assms Some fl show ?thesis
      by (cases r) (simp_all add: normalize_store_def new_object_def js_index_def)
  qed
qed

section \<open>The claims\<close>

text \<open>
  C1. For every raw document whose list of location records is empty, the transform ends
  in \<open>NotFoundError\<close> carrying the requested name, so it produces no forecast; and when
  the upstream resolves with such a document, the answer of \<^verbatim>\<open>getCityWeather\<close> is the 404
  whose message is the requested name between the two fixed texts of line 89.
\<close>

theorem normalize_empty_location_list:
  assumes "location (records data) = []"
  shows "normalize data requested = Inl (NotFoundError requested) \<and>
         (\<forall>out. normalize data requested \<noteq> Inr out) \<and>
         (\<forall>axios_get key cityName s.
            CWA_API_KEY s = Some key \<and> key \<noteq> [] \<and>
            axios_get key cityName = Resolved data \<longrightarrow>
            fst (getCityWeather axios_get cityName s) =
              \<lparr>status = 404,
                body = ErrorBody text_not_found
                         (text_cannot_get @ template cityName @ text_weather_data)\<rparr>)"
proof -
  from assms have nf: "\<And>name. normalize data name = Inl (NotFoundError name)"
    by (rule normalize_no_location)
  have "fst (getCityWeather axios_get cityName s) =
              \<lparr>status = 404,
                body = ErrorBody text_not_found
                         (text_cannot_get @ template cityName @ text_weather_data)\<rparr>"
    if "CWA_API_KEY s = Some key" and "key \<noteq> []" and "axios_get key cityName = Resolved data"
    for axios_get key cityName and s :: server
    using that nf [of "template cityName"] by (simp add: getCityWeather_def Let_def)
  with nf [of requested] show ?thesis by simp
qed

theorem normalize_empty_location_list_witness:
  "location (records empty_document) = [] \<and>
   normalize empty_document ''Taipei'' = Inl (NotFoundError ''Taipei'') \<and>
   fst (getCityWeather (resolves_with empty_document) (Str ''Taipei'') (startup (Some ''k''))) =
     \<lparr>status = 404,
       body = ErrorBody text_not_found (text_cannot_get @ ''Taipei'' @ text_weather_data)\<rparr>"
proof -
  have h: "location (records empty_document) = []"
    by (simp add: empty_document_def document_def)
  have k: "CWA_API_KEY (startup (Some ''k'')) = Some ''k'' \<and> ''k'' \<noteq> [] \<and>
           resolves_with empty_document ''k'' (Str ''Taipei'') = Resolved empty_document"
    by (simp add: startup_def resolves_with_def)
  from normalize_empty_location_list [OF h, of "''Taipei''"]
  have n: "normalize empty_document ''Taipei'' = Inl (NotFoundError ''Taipei'')"
    and r: "\<forall>axios_get key cityName s.
            CWA_API_KEY s = Some key \<and> key \<noteq> [] \<and>
            axios_get key cityName = Resolved empty_document \<longrightarrow>
            fst (getCityWeather axios_get cityName s) =
              \<lparr>status = 404,
                body = ErrorBody text_not_found
                         (text_cannot_get @ template cityName @ text_weather_data)\<rparr>"
    by blast+
  from r k have "fst (getCityWeather (resolves_with empty_document) (Str ''Taipei'')
                   (startup (Some ''k''))) =
              \<lparr>status = 404,
                body = ErrorBody text_not_found
                         (text_cannot_get @ template (Str ''Taipei'') @ text_weather_data)\<rparr>"
    by blast
  with h n show ?thesis by (simp add: template_def)
qed

text \<open>
  C2, as the claim states it, fails: in \<open>short_element_document\<close> the location list is
  not empty and the first element has two time slots, but the second element has one, so
  the second turn reads \<^verbatim>\<open>element.time[1].parameter\<close> of \<^verbatim>\<open>undefined\<close>; the transform throws
  and no forecasts are returned.
\<close>

theorem normalize_short_element_counterexample:
  "location (records short_element_document) \<noteq> [] \<and>
   length (time (hd (weatherElement (hd (location (records short_element_document)))))) = 2 \<and>
   normalize short_element_document ''Taipei'' = Inl TypeError"
  by (simp add: short_element_document_def document_def time_entry_def normalize_def js_index_def
      for_loop.simps loop_body_def forEach_callback_def switch_elementName_def
      new_forecast_def)

text \<open>
  C2, amended. For every raw document with a non-empty location list whose first record's
  first weather element has \<open>n\<close> time slots and whose other weather elements have at
  least \<open>n\<close> time slots each, the transform returns a forecast whose \<open>forecasts\<close> has
  length exactly \<open>n\<close>, and the \<open>i\<close>-th entry's \<open>startTime\<close> and \<open>endTime\<close> are those of
  the first element's \<open>i\<close>-th slot; so the entries are in the order of the time slots.
\<close>

theorem normalize_forecasts_follow_first_element:
  assumes "location (records data) = locationData # rest"
    and "weatherElement locationData = first # others"
    and "\<forall>e\<in>set others. length (time first) \<le> length (time e)"
  shows "\<exists>out. normalize data cityName = Inr out \<and>
           length (forecasts out) = length (time first) \<and>
           (\<forall>i<length (time first).
              forecast.startTime (forecasts out ! i) = time_slot.startTime (time first ! i) \<and>
              forecast.endTime (forecasts out ! i) = time_slot.endTime (time first ! i))"
proof -
  from assms(3) have "\<forall>e\<in>set (first # others). length (time first) \<le> length (time e)"
    by simp
  with assms(1,2) have "normalize data cityName =
      Inr \<lparr>city = locationName locationData,
           updateTime = datasetDescription (records data),
           forecasts = map (entry (first # others)) [0..<length (time first)]\<rparr>"
    by (rule normalize_in_range)
  then show ?thesis by (simp add: entry_times)
qed

theorem normalize_forecasts_follow_first_element_witness:
  "\<exists>out. normalize scenario_document ''Taipei'' = Inr out \<and>
     length (forecasts out) = 2 \<and>
     forecast.startTime (forecasts out ! 1) = ''2024-01-01T06:00'' \<and>
     forecast.endTime (forecasts out ! 1) = ''2024-01-01T12:00''"
proof -
  let ?first = "\<lparr>elementName = ''Wx'',
           time = [time_entry ''2024-01-01T00:00'' ''2024-01-01T06:00'' ''Cloudy'',
                   time_entry ''2024-01-01T06:00'' ''2024-01-01T12:00'' ''Rainy'']\<rparr>"
  let ?others = "[\<lparr>elementName = ''PoP'',
           time = [time_entry ''2024-01-01T00:00'' ''2024-01-01T06:00'' ''10'',
                   time_entry ''2024-01-01T06:00'' ''2024-01-01T12:00'' ''80'']\<rparr>]"
  let ?loc = "\<lparr>locationName = ''Taipei'', weatherElement = ?first # ?others\<rparr>"
  have a: "location (records scenario_document) = ?loc # []"
    by (simp add: scenario_elements)
  have b: "weatherElement ?loc = ?first # ?others" by simp
  have c: "\<forall>e\<in>set ?others. length (time ?first) \<le> length (time e)" by simp
  from normalize_forecasts_follow_first_element [OF a b c, of "''Taipei''"]
  obtain out where o: "normalize scenario_document ''Taipei'' = Inr out"
    "length (forecasts out) = length (time ?first)"
    "\<forall>i<length (time ?first).
       forecast.startTime (forecasts out ! i) = time_slot.startTime (time ?first ! i) \<and>
       forecast.endTime (forecasts out ! i) = time_slot.endTime (time ?first ! i)"
    by blast
  from o(3) have "forecast.startTime (forecasts out ! 1) = time_slot.startTime (time ?first ! 1) \<and>
       forecast.endTime (forecasts out ! 1) = time_slot.endTime (time ?first ! 1)"
    by simp
  with o(1,2) show ?thesis by (simp add: time_entry_def)
qed

text \<open>
  C3. For every entry of a returned forecast, at every position \<open>i\<close>: each element of the
  record has an \<open>i\<close>-th slot, and the field of a recognised name is the raw value of that
  slot of the element of that name (the last one, should the name occur twice), with
  \<open>%\<close> appended for \<open>PoP\<close>, the degree sign and \<open>C\<close> for \<open>MinT\<close> and \<open>MaxT\<close>, and
  nothing for \<open>Wx\<close>, \<open>CI\<close> and \<open>WS\<close>; it is the empty string when no element has the
  name. An element of any other name writes no field: the \<^verbatim>\<open>switch\<close> leaves the entry as
  it is.
\<close>

theorem forecast_entry_fields:
  assumes "normalize data cityName = Inr out"
    and "location (records data) = locationData # rest"
    and "i < length (forecasts out)"
  shows "(\<forall>e\<in>set (weatherElement locationData). i < length (time e)) \<and>
         weather (forecasts out ! i) = field_text ''Wx'' '''' (weatherElement locationData) i \<and>
         rain (forecasts out ! i) = field_text ''PoP'' ''%'' (weatherElement locationData) i \<and>
         minTemp (forecasts out ! i) = field_text ''MinT'' degC (weatherElement locationData) i \<and>
         maxTemp (forecasts out ! i) = field_text ''MaxT'' degC (weatherElement locationData) i \<and>
         comfort (forecasts out ! i) = field_text ''CI'' '''' (weatherElement locationData) i \<and>
         windSpeed (forecasts out ! i) = field_text ''WS'' '''' (weatherElement locationData) i \<and>
         (\<forall>name v f. name \<notin> {''Wx'', ''PoP'', ''MinT'', ''MaxT'', ''CI'', ''WS''} \<longrightarrow>
            switch_elementName name v f = f)"
proof -
  from normalize_returns [OF assms(1,2)] obtain first others where
    es: "weatherElement locationData = first # others"
    and al: "\<forall>e\<in>set (first # others). length (time first) \<le> length (time e)"
    and out: "out = \<lparr>city = locationName locationData,
                  updateTime = datasetDescription (records data),
                  forecasts = map (entry (first # others)) [0..<length (time first)]\<rparr>"
    by blast
  from out assms(3) have i: "i < length (time first)" by simp
  with out have e: "forecasts out ! i = entry (weatherElement locationData) i"
    by (simp add: es)
  from al i have "\<forall>e\<in>set (weatherElement locationData). i < length (time e)"
    by (auto simp: es)
  moreover have "\<forall>name v f. name \<notin> {''Wx'', ''PoP'', ''MinT'', ''MaxT'', ''CI'', ''WS''} \<longrightarrow>
            switch_elementName name v f = f"
    by (simp add: switch_elementName_def)
  ultimately show ?thesis
    unfolding e by (simp only: entry_fields simp_thms)
qed

theorem forecast_entry_fields_witness:
  "weather (forecasts (projr (normalize scenario_document ''Taipei'')) ! 1) = ''Rainy'' \<and>
   rain (forecasts (projr (normalize scenario_document ''Taipei'')) ! 1) = ''80%'' \<and>
   minTemp (forecasts (projr (normalize scenario_document ''Taipei'')) ! 1) = '''' \<and>
   switch_elementName ''T'' ''25'' (new_forecast (time_entry ''a'' ''b'' ''c'')) =
     new_forecast (time_entry ''a'' ''b'' ''c'')"
proof -
  let ?out = "projr (normalize scenario_document ''Taipei'')"
  let ?loc = "hd (location (records scenario_document))"
  have a: "normalize scenario_document ''Taipei'' = Inr ?out"
    by (simp add: normalize_scenario)
  have b: "location (records scenario_document) = ?loc # []"
    by (simp add: scenario_elements)
  have c: "1 < length (forecasts ?out)"
    by (simp add: normalize_scenario)
  have n: "''T'' \<notin> {''Wx'', ''PoP'', ''MinT'', ''MaxT'', ''CI'', ''WS''}" by simp
  from forecast_entry_fields [OF a b c]
  have w: "weather (forecasts ?out ! 1) = field_text ''Wx'' '''' (weatherElement ?loc) 1"
    and r: "rain (forecasts ?out ! 1) = field_text ''PoP'' ''%'' (weatherElement ?loc) 1"
    and m: "minTemp (forecasts ?out ! 1) = field_text ''MinT'' degC (weatherElement ?loc) 1"
    and s: "\<forall>name v f. name \<notin> {''Wx'', ''PoP'', ''MinT'', ''MaxT'', ''CI'', ''WS''} \<longrightarrow>
            switch_elementName name v f = f"
    by blast+
  have "field_text ''Wx'' '''' (weatherElement ?loc) 1 = ''Rainy''"
    and "field_text ''PoP'' ''%'' (weatherElement ?loc) 1 = ''80%''"
    and "field_text ''MinT'' degC (weatherElement ?loc) 1 = ''''"
    by (simp_all add: scenario_elements field_text_def last_named_def time_entry_def)
  with w r m s n show ?thesis by metis
qed

text \<open>
  C4. On the document with one location whose elements are \<open>Wx\<close>, valued \<open>Cloudy\<close> then
  \<open>Rainy\<close>, and \<open>PoP\<close>, valued \<open>10\<close> then \<open>80\<close>, over the same two windows, the transform
  returns two entries: the first with weather \<open>Cloudy\<close>, rain \<open>10%\<close> and the four other
  texts empty, the second with weather \<open>Rainy\<close> and rain \<open>80%\<close>; whatever the requested
  name.
\<close>

theorem normalize_scenario_document:
  "normalize scenario_document cityName =
     Inr \<lparr>city = ''Taipei'', updateTime = ''36h'',
          forecasts =
            [\<lparr>startTime = ''2024-01-01T00:00'', endTime = ''2024-01-01T06:00'',
              weather = ''Cloudy'', rain = ''10%'', minTemp = '''', maxTemp = '''',
              comfort = '''', windSpeed = ''''\<rparr>,
             \<lparr>startTime = ''2024-01-01T06:00'', endTime = ''2024-01-01T12:00'',
              weather = ''Rainy'', rain = ''80%'', minTemp = '''', maxTemp = '''',
              comfort = '''', windSpeed = ''''\<rparr>]\<rparr>"
  by (simp add: scenario_document_def document_def time_entry_def normalize_def js_index_def
      for_loop.simps loop_body_def forEach_callback_def switch_elementName_def
      new_forecast_def)

theorem normalize_scenario_document_witness:
  "map weather (forecasts (projr (normalize scenario_document ''Taipei''))) =
     [''Cloudy'', ''Rainy''] \<and>
   map rain (forecasts (projr (normalize scenario_document ''Taipei''))) = [''10%'', ''80%'']"
  using normalize_scenario_document [of "''Taipei''"] by simp

text \<open>
  C5, as the claim states it, fails: \<open>no_element_document\<close> has a non-empty location
  list, but its location record lists no weather element, so line 102 reads \<^verbatim>\<open>time\<close> of
  \<^verbatim>\<open>undefined\<close> and the transform throws after it has built \<^verbatim>\<open>weatherData\<close>. The request is
  answered with the generic 500 and there is no output, hence no \<open>city\<close> and no
  \<open>updateTime\<close>.
\<close>

theorem normalize_no_element_counterexample:
  "location (records no_element_document) \<noteq> [] \<and>
   normalize no_element_document ''Kaohsiung'' = Inl TypeError \<and>
   status (fst (getCityWeather (resolves_with no_element_document) (Str ''Kaohsiung'')
                  (startup (Some ''k'')))) = 500"
  by (simp add: no_element_document_def document_def normalize_def js_index_def
      getCityWeather_def resolves_with_def startup_def template_def catch_block_def Let_def)

text \<open>
  C5, amended. For every raw document with a non-empty location list whose first record
  has a weather element and in which no other element of that record has fewer time slots
  than the first one, the transform returns an output whose \<open>city\<close> is the first location
  record's own \<open>locationName\<close>, not the requested name, and whose \<open>updateTime\<close> is the
  document's \<open>datasetDescription\<close>.
\<close>

theorem normalize_city_and_updateTime:
  assumes "location (records data) = locationData # rest"
    and "weatherElement locationData = first # others"
    and "\<forall>e\<in>set others. length (time first) \<le> length (time e)"
  shows "\<exists>out. normalize data cityName = Inr out \<and>
           city out = locationName locationData \<and>
           updateTime out = datasetDescription (records data)"
proof -
  from assms(3) have "\<forall>e\<in>set (first # others). length (time first) \<le> length (time e)"
    by simp
  with assms(1,2) have "normalize data cityName =
      Inr \<lparr>city = locationName locationData,
           updateTime = datasetDescription (records data),
           forecasts = map (entry (first # others)) [0..<length (time first)]\<rparr>"
    by (rule normalize_in_range)
  then show ?thesis by simp
qed

theorem normalize_city_and_updateTime_witness:
  "\<exists>out. normalize scenario_document ''Kaohsiung'' = Inr out \<and>
     city out = ''Taipei'' \<and> updateTime out = ''36h''"
proof -
  let ?first = "\<lparr>elementName = ''Wx'',
           time = [time_entry ''2024-01-01T00:00'' ''2024-01-01T06:00'' ''Cloudy'',
                   time_entry ''2024-01-01T06:00'' ''2024-01-01T12:00'' ''Rainy'']\<rparr>"
  let ?others = "[\<lparr>elementName = ''PoP'',
           time = [time_entry ''2024-01-01T00:00'' ''2024-01-01T06:00'' ''10'',
                   time_entry ''2024-01-01T06:00'' ''2024-01-01T12:00'' ''80'']\<rparr>]"
  let ?loc = "\<lparr>locationName = ''Taipei'', weatherElement = ?first # ?others\<rparr>"
  have a: "location (records scenario_document) = ?loc # []"
    by (simp add: scenario_elements)
  have b: "weatherElement ?loc = ?first # ?others" by simp
  have c: "\<forall>e\<in>set ?others. length (time ?first) \<le> length (time e)" by simp
  from normalize_city_and_updateTime [OF a b c, of "''Kaohsiung''"]
  have "\<exists>out. normalize scenario_document ''Kaohsiung'' = Inr out \<and>
               city out = locationName ?loc \<and>
               updateTime out = datasetDescription (records scenario_document)" .
  then show ?thesis
    by (simp add: scenario_document_def document_def)
qed

text \<open>
  C6. The transform is deterministic and has no side effect on what existed before the
  call. Run on a store that holds the document at address \<open>d\<close>, and run again on the
  store the first run leaves, with the same requested name, it gives both times the same
  outcome as a value (the same error, or forecasts equal field by field, each read back
  from the store its run leaves), namely the value of the function \<open>normalize\<close> on the
  document and the name; the second run leaves the first run's output intact. Each run
  only adds objects at the end of the store: every object that existed before, the
  document at \<open>d\<close> among them, is afterwards what it was. The requested name is a string,
  a value no code can write to.
\<close>

theorem normalize_store_twice:
  assumes "document_at d h = Some data"
    and "normalize_store d cityName h = (r1, h1)"
    and "normalize_store d cityName h1 = (r2, h2)"
  shows "outcome_at r1 h1 = Some (normalize data cityName) \<and>
         outcome_at r2 h2 = Some (normalize data cityName) \<and>
         outcome_at r1 h2 = Some (normalize data cityName) \<and>
         (\<exists>new. h1 = h @ new) \<and> (\<exists>new. h2 = h1 @ new) \<and>
         document_at d h1 = Some data \<and> document_at d h2 = Some data"
proof -
  from normalize_store_run [OF assms(1), of cityName] assms(2) obtain new1 where
    h1: "h1 = h @ new1"
    and o1: "\<forall>later. outcome_at r1 (h @ new1 @ later) = Some (normalize data cityName)"
    by auto
  from assms(1) h1 have d1: "document_at d h1 = Some data"
    by (simp add: document_at_append)
  from normalize_store_run [OF d1, of cityName] assms(3) obtain new2 where
    h2: "h2 = h1 @ new2"
    and o2: "\<forall>later. outcome_at r2 (h1 @ new2 @ later) = Some (normalize data cityName)"
    by auto
  from d1 h2 have d2: "document_at d h2 = Some data"
    by (simp add: document_at_append)
  from o1 have "outcome_at r1 (h @ new1 @ []) = Some (normalize data cityName)" by blast
  with h1 have a: "outcome_at r1 h1 = Some (normalize data cityName)" by simp
  from o2 have "outcome_at r2 (h1 @ new2 @ []) = Some (normalize data cityName)" by blast
  with h2 have b: "outcome_at r2 h2 = Some (normalize data cityName)" by simp
  from o1 have "outcome_at r1 (h @ new1 @ new2) = Some (normalize data cityName)" by blast
  with h1 h2 have c: "outcome_at r1 h2 = Some (normalize data cityName)" by simp
  from a b c h1 h2 d1 d2 show ?thesis by blast
qed

theorem normalize_store_twice_witness:
  "outcome_at (fst (normalize_store 0 ''Taipei'' [DocumentObject scenario_document]))
     (snd (normalize_store 0 ''Taipei'' [DocumentObject scenario_document])) =
   outcome_at
     (fst (normalize_store 0 ''Taipei''
             (snd (normalize_store 0 ''Taipei'' [DocumentObject scenario_document]))))
     (snd (normalize_store 0 ''Taipei''
             (snd (normalize_store 0 ''Taipei'' [DocumentObject scenario_document])))) \<and>
   document_at 0
     (snd (normalize_store 0 ''Taipei''
             (snd (normalize_store 0 ''Taipei'' [DocumentObject scenario_document])))) =
   Some scenario_document \<and>
   fst (normalize_store 0 ''Taipei'' [DocumentObject scenario_document]) = Inr 1"
proof -
  let ?h = "[DocumentObject scenario_document]"
  let ?run1 = "normalize_store 0 ''Taipei'' ?h"
  let ?run2 = "normalize_store 0 ''Taipei'' (snd ?run1)"
  have a: "document_at 0 ?h = Some scenario_document"
    by (simp add: document_at_def js_index_def)
  have b: "?run1 = (fst ?run1, snd ?run1)" and c: "?run2 = (fst ?run2, snd ?run2)"
    by simp_all
  have r: "fst ?run1 = Inr 1"
    by (simp add: scenario_document_def document_def time_entry_def normalize_store_def
        document_at_def js_index_def new_object_def for_loop_store.simps loop_body_store_def
        forEach_callback_store_def forecast_at_def push_forecast_def new_forecast_def
        switch_elementName_def)
  from normalize_store_twice [OF a b c] r show ?thesis by simp
qed

text \<open>
  C7. When every weather element of the first location record has as many time slots as
  the first element, every read \<^verbatim>\<open>element.time[i]\<close> of the transform, for \<open>i\<close> below the
  first element's number of slots, is in range, and the transform does not end in the
  \<open>TypeError\<close> of an out-of-range read: it returns. The transform does not check the
  alignment: a document whose second element has more slots than the first is accepted,
  and the extra slot is dropped.
\<close>

theorem aligned_reads_in_range:
  assumes "location (records data) = locationData # rest"
    and "weatherElement locationData = first # others"
    and "\<forall>e\<in>set (first # others). length (time e) = length (time first)"
  shows "(\<forall>i<length (time first). \<forall>e\<in>set (first # others). js_index (time e) i \<noteq> None) \<and>
         (\<forall>i<length (time first). loop_body (first # others) i \<noteq> Inl TypeError) \<and>
         normalize data cityName \<noteq> Inl TypeError \<and>
         (\<exists>out. normalize data cityName = Inr out) \<and>
         (\<exists>out. normalize long_element_document cityName = Inr out \<and>
                 length (forecasts out) = 1)"
proof -
  from assms(3) have al: "\<forall>e\<in>set (first # others). length (time first) \<le> length (time e)"
    by simp
  have "\<forall>i<length (time first). \<forall>e\<in>set (first # others). js_index (time e) i \<noteq> None"
    using assms(3) by (simp add: js_index_def)
  moreover have "\<forall>i<length (time first). loop_body (first # others) i \<noteq> Inl TypeError"
    using al by (simp add: loop_body_in_range [of "first # others" first others])
  moreover have r: "\<exists>out. normalize data cityName = Inr out"
    using assms(1,2) al by (simp add: normalize_in_range)
  moreover from r have "normalize data cityName \<noteq> Inl TypeError" by auto
  moreover have "\<exists>out. normalize long_element_document cityName = Inr out \<and>
                 length (forecasts out) = 1"
    by (simp add: long_element_document_def document_def time_entry_def normalize_def js_index_def
        for_loop.simps loop_body_def forEach_callback_def switch_elementName_def
        new_forecast_def)
  ultimately show ?thesis by blast
qed

theorem aligned_reads_in_range_witness:
  "js_index (time (hd (tl (weatherElement (hd (location (records scenario_document))))))) 1 \<noteq> None \<and>
   normalize scenario_document ''Taipei'' \<noteq> Inl TypeError"
proof -
  let ?first = "\<lparr>elementName = ''Wx'',
           time = [time_entry ''2024-01-01T00:00'' ''2024-01-01T06:00'' ''Cloudy'',
                   time_entry ''2024-01-01T06:00'' ''2024-01-01T12:00'' ''Rainy'']\<rparr>"
  let ?second = "\<lparr>elementName = ''PoP'',
           time = [time_entry ''2024-01-01T00:00'' ''2024-01-01T06:00'' ''10'',
                   time_entry ''2024-01-01T06:00'' ''2024-01-01T12:00'' ''80'']\<rparr>"
  let ?loc = "\<lparr>locationName = ''Taipei'', weatherElement = ?first # [?second]\<rparr>"
  have a: "location (records scenario_document) = ?loc # []"
    by (simp add: scenario_elements)
  have b: "weatherElement ?loc = ?first # [?second]" by simp
  have c: "\<forall>e\<in>set (?first # [?second]). length (time e) = length (time ?first)" by simp
  from aligned_reads_in_range [OF a b c, of "''Taipei''"]
  have r: "\<forall>i<length (time ?first). \<forall>e\<in>set (?first # [?second]). js_index (time e) i \<noteq> None"
    and n: "normalize scenario_document ''Taipei'' \<noteq> Inl TypeError"
    by blast+
  from r have "js_index (time ?second) 1 \<noteq> None" by simp
  with n show ?thesis by (simp add: scenario_elements)
qed

text \<open>
  C8. The table has exactly 22 entries; its keys are pairwise distinct, each is a
  non-empty string of the letters \<open>a\<close> to \<open>z\<close> and the hyphen, so lower-casing leaves it
  as it is; neither the start-up callback nor any request changes the table, whose
  properties the handlers only look up and enumerate, and after the start and any
  sequence of requests it is still the literal of lines 32 to 55.
\<close>

theorem CITY_MAP_fixed:
  "length CITY_MAP_literal = 22 \<and>
   distinct (Object_keys CITY_MAP_literal) \<and>
   (\<forall>key\<in>set (Object_keys CITY_MAP_literal).
      key \<noteq> [] \<and> (\<forall>c\<in>set key. c \<in> set ''abcdefghijklmnopqrstuvwxyz-'') \<and>
      ascii_toLowerCase key = key) \<and>
   CITY_MAP (listen_callback port node_env s) = CITY_MAP s \<and>
   CITY_MAP (snd (handle toLowerCase axios_get req s)) = CITY_MAP s \<and>
   CITY_MAP (serve toLowerCase requests (listen_callback port node_env (startup env_key))) =
     CITY_MAP_literal"
proof -
  have "length CITY_MAP_literal = 22"
    by (simp add: CITY_MAP_literal_def)
  moreover have "distinct (Object_keys CITY_MAP_literal)"
    by (simp add: CITY_MAP_literal_def Object_keys_def)
  moreover have "\<forall>key\<in>set (Object_keys CITY_MAP_literal).
      key \<noteq> [] \<and> (\<forall>c\<in>set key. c \<in> set ''abcdefghijklmnopqrstuvwxyz-'') \<and>
      ascii_toLowerCase key = key"
    by (simp add: CITY_MAP_literal_def Object_keys_def ascii_toLowerCase_def lower_char_def)
  moreover have
    "CITY_MAP (serve toLowerCase requests (listen_callback port node_env (startup env_key))) =
       CITY_MAP_literal"
    by (simp add: serve_CITY_MAP listen_callback_CITY_MAP startup_def)
  ultimately show ?thesis by (simp add: handle_CITY_MAP listen_callback_CITY_MAP)
qed

theorem CITY_MAP_fixed_witness:
  "ascii_toLowerCase ''hsinchu-city'' = ''hsinchu-city'' \<and>
   CITY_MAP (snd (handle ascii_toLowerCase (resolves_with scenario_document)
                   (GetWeather ''Taipei'') (startup (Some ''k'')))) = CITY_MAP_literal"
proof -
  have k: "''hsinchu-city'' \<in> set (Object_keys CITY_MAP_literal)"
    by (simp add: CITY_MAP_literal_def Object_keys_def)
  from CITY_MAP_fixed [where toLowerCase = ascii_toLowerCase
      and axios_get = "resolves_with scenario_document" and req = "GetWeather ''Taipei''"
      and s = "startup (Some ''k'')"] k
  have "ascii_toLowerCase ''hsinchu-city'' = ''hsinchu-city''"
    and "CITY_MAP (snd (handle ascii_toLowerCase (resolves_with scenario_document)
                   (GetWeather ''Taipei'') (startup (Some ''k'')))) =
         CITY_MAP (startup (Some ''k''))"
    by blast+
  then show ?thesis by (simp add: startup_def)
qed

text \<open>
  C9, as the claim states it, fails twice. With no key set, a weather request for a code
  the route does not resolve is answered 400, not with the configuration error: the
  route looks the code up before \<^verbatim>\<open>getCityWeather\<close> looks at the key. And the transform
  does not only end in \<open>NotFoundError\<close>: on a location record without weather element it
  throws a \<open>TypeError\<close>.
\<close>

theorem missing_key_counterexample:
  "CWA_API_KEY (startup None) = None \<and>
   status (fst (handle ascii_toLowerCase (resolves_with scenario_document)
                  (GetWeather ''atlantis'') (startup None))) = 400 \<and>
   normalize no_element_document ''Taipei'' = Inl TypeError"
  by (simp add: startup_def handle_def weather_route_def ascii_toLowerCase_def lower_char_def
      get_property_def CITY_MAP_literal_def Object_prototype_def truthy_def
      no_element_document_def document_def normalize_def js_index_def)

text \<open>
  C9, amended. If the key is absent (unset or empty), every call of \<^verbatim>\<open>getCityWeather\<close>,
  hence every weather request whose lower-cased code the route resolves, is answered at
  once with the configuration error (status 500 and the two texts of lines 65 and 66),
  whatever the upstream would do and with the state unchanged: no upstream call, no log
  line, and the transform is not run. A request whose code the route does not resolve is
  answered 400 before that. The check is outside the transform, whose own error outcome
  is \<open>NotFoundError\<close>, for an empty location list, and which otherwise can only throw a
  \<open>TypeError\<close>, when the first location record has no weather element or has an element
  with fewer time slots than its first one.
\<close>

theorem missing_key_answered_first:
  assumes "CWA_API_KEY s = None \<or> CWA_API_KEY s = Some ''''"
  shows "getCityWeather axios_get cityName s =
           (\<lparr>status = 500, body = ErrorBody text_config_error text_config_message\<rparr>, s) \<and>
         (truthy (get_property (CITY_MAP s) (toLowerCase param)) \<longrightarrow>
            weather_route toLowerCase axios_get param s =
              (\<lparr>status = 500, body = ErrorBody text_config_error text_config_message\<rparr>, s)) \<and>
         (\<not> truthy (get_property (CITY_MAP s) (toLowerCase param)) \<longrightarrow>
            status (fst (weather_route toLowerCase axios_get param s)) = 400 \<and>
            snd (weather_route toLowerCase axios_get param s) = s) \<and>
         (\<forall>data name e. normalize data name = Inl e \<longrightarrow>
            (e = NotFoundError name \<and> location (records data) = []) \<or>
            (e = TypeError \<and>
             (\<exists>locationData rest. location (records data) = locationData # rest \<and>
                (weatherElement locationData = [] \<or>
                 (\<exists>element\<in>set (weatherElement locationData).
                    length (time element) <
                      length (time (hd (weatherElement locationData))))))))"
proof -
  note k = getCityWeather_without_key [OF assms]
  have "weather_route toLowerCase axios_get param s =
              (\<lparr>status = 500, body = ErrorBody text_config_error text_config_message\<rparr>, s)"
    if "truthy (get_property (CITY_MAP s) (toLowerCase param))"
    using that by (simp add: weather_route_def Let_def k)
  moreover have "status (fst (weather_route toLowerCase axios_get param s)) = 400 \<and>
            snd (weather_route toLowerCase axios_get param s) = s"
    if "\<not> truthy (get_property (CITY_MAP s) (toLowerCase param))"
    using that by (simp add: weather_route_def Let_def)
  ultimately show ?thesis
    using k normalize_error_cases by blast
qed

theorem missing_key_answered_first_witness:
  "getCityWeather (resolves_with scenario_document) (Str ''Taipei'') (startup None) =
     (\<lparr>status = 500, body = ErrorBody text_config_error text_config_message\<rparr>, startup None) \<and>
   weather_route ascii_toLowerCase (resolves_with scenario_document) ''Taipei''
     (startup (Some '''')) =
     (\<lparr>status = 500, body = ErrorBody text_config_error text_config_message\<rparr>,
      startup (Some ''''))"
proof -
  have a: "CWA_API_KEY (startup None) = None \<or> CWA_API_KEY (startup None) = Some ''''"
    by (simp add: startup_def)
  have b: "CWA_API_KEY (startup (Some '''')) = None \<or>
           CWA_API_KEY (startup (Some '''')) = Some ''''"
    by (simp add: startup_def)
  have t: "truthy (get_property (CITY_MAP (startup (Some '''')))
                    (ascii_toLowerCase ''Taipei''))"
    by (simp add: startup_def ascii_toLowerCase_def lower_char_def get_property_def
        CITY_MAP_literal_def truthy_def)
  from missing_key_answered_first [OF a, of "resolves_with scenario_document" "Str ''Taipei''"]
    missing_key_answered_first [OF b, where axios_get = "resolves_with scenario_document"
      and toLowerCase = ascii_toLowerCase and param = "''Taipei''"] t
  show ?thesis by blast
qed

text \<open>
  C10 does not hold of the code. The route reads \<^verbatim>\<open>CITY_MAP[cityCode]\<close> and rejects the
  request when the value is falsy; for the code \<open>constructor\<close>, which is no key of the
  table, the read goes up the prototype chain and yields the function \<^verbatim>\<open>Object\<close>, which
  is truthy. The request is not answered 400: whatever the upstream and the key,
  \<^verbatim>\<open>getCityWeather\<close> runs with that function as the city name and, when a key is set, logs
  and calls the upstream. With an upstream that resolves with a document without location,
  the answer is the 404 of line 87 about the text of the function.
\<close>

theorem weather_route_constructor:
  "map_of CITY_MAP_literal (ascii_toLowerCase ''constructor'') = None \<and>
   weather_route ascii_toLowerCase axios_get ''constructor'' (startup env_key) =
     getCityWeather axios_get (NativeFunction ''Object'') (startup env_key) \<and>
   weather_route ascii_toLowerCase (resolves_with empty_document) ''constructor''
     (startup (Some ''k'')) =
     (\<lparr>status = 404,
       body = ErrorBody text_not_found
                (text_cannot_get @ ''function Object() { [native code] }'' @
                 text_weather_data)\<rparr>,
      \<lparr>CITY_MAP = CITY_MAP_literal, CWA_API_KEY = Some ''k'',
       effects =
         [ConsoleLog (log_fetching_1 @ ''function Object() { [native code] }'' @
                      log_fetching_2),
          AxiosGet ''https://opendata.cwa.gov.tw/api/v1/rest/datastore/F-C0032-001'' ''k''
            (NativeFunction ''Object'')]\<rparr>)"
  by (simp add: weather_route_def startup_def ascii_toLowerCase_def lower_char_def
      get_property_def CITY_MAP_literal_def Object_prototype_def truthy_def
      getCityWeather_def resolves_with_def empty_document_def document_def
      normalize_def js_index_def template_def CWA_API_BASE_URL_def Let_def)

end
